theory Spec2Isabelle
  imports Complex_Main
begin

section \<open>Go values, errors and log output\<close>

text \<open>
  The program is a bridge from an MQTT topic to a TimescaleDB table. Its own code is the
  packages \<open>mqtt\<close> (message handler and decoding), \<open>database\<close> (schema bootstrap and insert)
  and \<open>models\<close> (the record). Everything else it calls is a library: \<open>encoding/json\<close>,
  \<open>time\<close>, \<open>fmt\<close>, \<open>strconv\<close>, \<open>log\<close>, the paho MQTT client and the pgx driver with the
  database server behind it.

  A \<open>float64\<close> is never computed with by this program: it is produced by a library
  conversion and handed on to the driver. The type of floats is therefore a type
  variable \<open>'f\<close> with a zero (Go's zero value), and the conversions are parameters.
\<close>

text \<open>A \<open>time.Time\<close>: the instant in nanoseconds since the epoch, and the zone offset in
  seconds that the value carries.\<close>

record Time =
  unixNano :: int
  zoneOffset :: int

text \<open>The dynamic type of an \<open>interface{}\<close> value. \<open>encoding/json\<close> stores only nil, bool,
  float64, string, slices and maps, but \<open>getFloat64Value\<close> also has cases for \<open>int\<close> and
  \<open>int64\<close>; \<open>AnyOther\<close> stands for every further dynamic type, by its name.\<close>

datatype 'f any =
    AnyNil
  | AnyBool bool
  | AnyFloat64 'f
  | AnyString string
  | AnyInt int
  | AnyInt64 int
  | AnySlice "'f any list"
  | AnyMap "(string \<times> 'f any) list"
  | AnyOther string

text \<open>The SQLSTATE classes the database model below can answer with.\<close>

datatype sqlstate =
    Connection_failure
  | Syntax_error
  | Duplicate_table
  | Undefined_table
  | Undefined_column
  | Not_null_violation
  | Datatype_mismatch
  | Undefined_function
  | Hypertable_exists
  | Hypertable_not_empty

text \<open>A Go \<open>error\<close>: a library's error by its message, a server error, or
  \<open>fmt.Errorf("<prefix>: %w", err)\<close>.\<close>

datatype error =
    LibError string
  | PgError sqlstate
  | Errorf string error

text \<open>The \<open>log\<close> package is the only output besides the database. A line is kept as
  the call that wrote it: the format string and its operands, unformatted.\<close>

datatype 'f logarg =
    LStr string
  | LErr error
  | LFloat 'f
  | LTime Time
  | LInt int

datatype 'f logline =
    Printf string "'f logarg list"
  | Println string

section \<open>Library functions taken as parameters\<close>

record 'f golib =
  json_Unmarshal :: "string \<Rightarrow> error + (string \<rightharpoonup> 'f any)"
  time_Parse :: "string \<Rightarrow> string \<Rightarrow> error + Time"
  strconv_ParseFloat :: "string \<Rightarrow> error + 'f"
  strconv_Atoi :: "string \<Rightarrow> error + int"
  math_Ldexp :: "'f \<Rightarrow> int \<Rightarrow> 'f"
  float64_of_int :: "int \<Rightarrow> 'f"

text \<open>\<open>json_Unmarshal lib payload\<close> is \<open>json.Unmarshal(payload, &rawData)\<close> for
  \<open>rawData map[string]interface{}\<close>: the error, or the map (a nil map reads as the empty
  one). \<open>time_Parse lib layout value\<close> is \<open>time.Parse\<close>; \<open>strconv_ParseFloat lib s\<close> is
  \<open>strconv.ParseFloat(s, 64)\<close> seen by a caller that drops the value on error;
  \<open>float64_of_int lib v\<close> is the conversion \<open>float64(v)\<close>.\<close>

definition RFC3339 :: string where
  "RFC3339 = ''2006-01-02T15:04:05Z07:00''"

text \<open>The wall clock. \<open>time.Now()\<close> is read at most once per message, some time after the
  handler was entered; the clock is assumed not to run backwards in between, which is
  what the type \<open>nat\<close> of \<open>elapsed\<close> says.\<close>

record clock =
  entered :: int
  elapsed :: nat
  localZone :: int

definition time_Now :: "clock \<Rightarrow> Time" where
  "time_Now clk = \<lparr>unixNano = entered clk + int (elapsed clk), zoneOffset = localZone clk\<rparr>"

section \<open>Scanning a float: \<open>fmt.Sscanf(s, "%f", &f)\<close>\<close>

text \<open>
  \<open>parseFloat\<close> of the program is one call of \<open>fmt.Sscanf\<close> with the format \<open>%f\<close>. The
  scanner of package \<open>fmt\<close> (scan.go) is followed here step by step for that format:
  \<open>doScanf\<close> meets the verb, calls \<open>SkipSpace\<close>, then \<open>scanOne\<close> checks that input is
  left (\<open>notEOF\<close>), collects \<open>floatToken\<close> and converts it with \<open>convertFloat\<close>. Input
  after the token is never looked at. Only the conversion of a token to a float
  (\<open>strconv.ParseFloat\<close>, \<open>strconv.Atoi\<close>, \<open>math.Ldexp\<close>) is a parameter.

  Strings are Go strings: bytes. The scanner reads runes, so the UTF-8 decoder is part
  of the model (\<open>utf8.DecodeRune\<close>: an invalid or short sequence is U+FFFD of width 1).
\<close>

definition cont_byte :: "nat \<Rightarrow> bool" where
  "cont_byte b = (128 \<le> b \<and> b \<le> 191)"

fun DecodeRune :: "nat list \<Rightarrow> nat \<times> nat" where
  "DecodeRune [] = (65533, 0)"
| "DecodeRune (b0 # bs) =
     (if b0 < 128 then (b0, 1)
      else if 194 \<le> b0 \<and> b0 \<le> 223 then
        (case bs of
           b1 # _ \<Rightarrow> if cont_byte b1 then ((b0 - 192) * 64 + (b1 - 128), 2) else (65533, 1)
         | [] \<Rightarrow> (65533, 1))
      else if 224 \<le> b0 \<and> b0 \<le> 239 then
        (case bs of
           b1 # b2 # _ \<Rightarrow>
             if (if b0 = 224 then 160 \<le> b1 \<and> b1 \<le> 191
                 else if b0 = 237 then 128 \<le> b1 \<and> b1 \<le> 159
                 else cont_byte b1) \<and> cont_byte b2
             then ((b0 - 224) * 4096 + (b1 - 128) * 64 + (b2 - 128), 3)
             else (65533, 1)
         | _ \<Rightarrow> (65533, 1))
      else if 240 \<le> b0 \<and> b0 \<le> 244 then
        (case bs of
           b1 # b2 # b3 # _ \<Rightarrow>
             if (if b0 = 240 then 144 \<le> b1 \<and> b1 \<le> 191
                 else if b0 = 244 then 128 \<le> b1 \<and> b1 \<le> 143
                 else cont_byte b1) \<and> cont_byte b2 \<and> cont_byte b3
             then ((b0 - 240) * 262144 + (b1 - 128) * 4096 + (b2 - 128) * 64 + (b3 - 128), 4)
             else (65533, 1)
         | _ \<Rightarrow> (65533, 1))
      else (65533, 1))"

text \<open>The table \<open>space\<close> of scan.go, a copy of the Unicode White_Space ranges.\<close>

definition space :: "(nat \<times> nat) list" where
  "space = [(9, 13), (32, 32), (133, 133), (160, 160), (5760, 5760), (8192, 8202),
            (8232, 8233), (8239, 8239), (8287, 8287), (12288, 12288)]"

definition isSpace :: "nat \<Rightarrow> bool" where
  "isSpace r = (r < 65536 \<and> list_ex (\<lambda>(lo, hi). lo \<le> r \<and> r \<le> hi) space)"

definition bytes :: "string \<Rightarrow> nat list" where
  "bytes s = map of_char s"

text \<open>\<open>SkipSpace\<close> with \<open>nlIsSpace = false\<close>, as \<open>Sscanf\<close> sets it: a newline is an error,
  a carriage return before a newline is dropped, other white space is skipped.\<close>

function SkipSpace :: "string \<Rightarrow> error + string" where
  "SkipSpace inp =
     (case inp of
        [] \<Rightarrow> Inr []
      | c # cs \<Rightarrow>
          (let (r, w) = DecodeRune (bytes inp) in
           if r = 13 \<and> (case cs of [] \<Rightarrow> False | d # _ \<Rightarrow> d = CHR 0x0A) then SkipSpace cs
           else if r = 10 then Inl (LibError ''unexpected newline'')
           else if isSpace r then SkipSpace (drop (max w 1) inp)
           else Inr inp))"
  by pat_completeness auto
termination
  by (relation "measure length") auto

declare SkipSpace.simps [simp del]

text \<open>The scanner's state while a token is read: the buffer and the input left.
  \<open>accept ok\<close> takes the next rune into the buffer when it is one of \<open>ok\<close>. Every \<open>ok\<close>
  used is ASCII, so a rune matches exactly when its first byte does.\<close>

type_synonym ss = "string \<times> string"

definition accept :: "string \<Rightarrow> ss \<Rightarrow> bool \<times> ss" where
  "accept ok s =
     (case snd s of
        [] \<Rightarrow> (False, s)
      | r # rest \<Rightarrow> if r \<in> set ok then (True, (fst s @ [r], rest)) else (False, s))"

text \<open>The loop \<open>for s.accept(ok) { }\<close>.\<close>

fun accept_loop :: "string \<Rightarrow> string \<Rightarrow> string \<Rightarrow> ss" where
  "accept_loop ok buf [] = (buf, [])"
| "accept_loop ok buf (r # rest) =
     (if r \<in> set ok then accept_loop ok (buf @ [r]) rest else (buf, r # rest))"

definition sign :: string where "sign = ''+-''"
definition period :: string where "period = ''.''"
definition exponent :: string where "exponent = ''eEpP''"
definition decimalDigits :: string where "decimalDigits = ''0123456789''"
definition hexadecimalDigits :: string where "hexadecimalDigits = ''0123456789aAbBcCdDeEfF''"

definition floatToken :: "string \<Rightarrow> ss" where
  "floatToken inp =
     (let s0 = ([], inp);
          (n1, s1) = accept ''nN'' s0;
          (n2, s2) = (if n1 then accept ''aA'' s1 else (False, s1));
          (n3, s3) = (if n2 then accept ''nN'' s2 else (False, s2))
      in if n3 then s3
         else
           let (sg, s4) = accept sign s3;
               (i1, s5) = accept ''iI'' s4;
               (i2, s6) = (if i1 then accept ''nN'' s5 else (False, s5));
               (i3, s7) = (if i2 then accept ''fF'' s6 else (False, s6))
           in if i3 then s7
              else
                let (z, s8) = accept ''0'' s7;
                    (x, s9) = (if z then accept ''xX'' s8 else (False, s8));
                    digits = (if x then hexadecimalDigits @ ''_'' else decimalDigits @ ''_'');
                    exp' = (if x then ''pP'' else exponent);
                    s10 = accept_loop digits (fst s9) (snd s9);
                    (p, s11) = accept period s10;
                    s12 = (if p then accept_loop digits (fst s11) (snd s11) else s11);
                    (e, s13) = accept exp' s12
                in if e then
                     (let (sg2, s14) = accept sign s13
                      in accept_loop (decimalDigits @ ''_'') (fst s14) (snd s14))
                   else s13)"

fun indexRune :: "string \<Rightarrow> char \<Rightarrow> nat option" where
  "indexRune [] r = None"
| "indexRune (c # cs) r =
     (if c = r then Some 0 else map_option Suc (indexRune cs r))"

definition hasX :: "string \<Rightarrow> bool" where
  "hasX s = (CHR ''x'' \<in> set s \<or> CHR ''X'' \<in> set s)"

text \<open>\<open>convertFloat(str, 64)\<close>: a decimal mantissa with a binary exponent (\<open>1.2p4\<close>) is
  evaluated by hand, everything else goes to \<open>strconv.ParseFloat\<close>.\<close>

definition convertFloat :: "'f golib \<Rightarrow> string \<Rightarrow> error + 'f" where
  "convertFloat lib str =
     (case indexRune str (CHR ''p'') of
        Some p \<Rightarrow>
          if \<not> hasX str then
            (case strconv_ParseFloat lib (take p str) of
               Inl err \<Rightarrow> Inl err
             | Inr f \<Rightarrow>
                 (case strconv_Atoi lib (drop (p + 1) str) of
                    Inl err \<Rightarrow> Inl err
                  | Inr m \<Rightarrow> Inr (math_Ldexp lib f m)))
          else strconv_ParseFloat lib str
      | None \<Rightarrow> strconv_ParseFloat lib str)"

definition Sscanf_f :: "'f golib \<Rightarrow> string \<Rightarrow> error + 'f" where
  "Sscanf_f lib s =
     (case SkipSpace s of
        Inl err \<Rightarrow> Inl err
      | Inr inp \<Rightarrow>
          if inp = [] then Inl (LibError ''unexpected EOF'')
          else convertFloat lib (fst (floatToken inp)))"

section \<open>Package mqtt: decoding helpers\<close>

text \<open>\<open>parseFloat\<close> returns the pair \<open>(f, err)\<close>; \<open>f\<close> keeps its zero value when the scan
  fails.\<close>

definition parseFloat :: "('f::zero) golib \<Rightarrow> string \<Rightarrow> 'f \<times> error option" where
  "parseFloat lib s =
     (case Sscanf_f lib s of
        Inl err \<Rightarrow> (0, Some err)
      | Inr f \<Rightarrow> (f, None))"

definition getFloat64Value :: "('f::zero) golib \<Rightarrow> (string \<rightharpoonup> 'f any) \<Rightarrow> string \<Rightarrow> 'f \<times> bool" where
  "getFloat64Value lib data key =
     (case data key of
        Some val \<Rightarrow>
          (case val of
             AnyFloat64 v \<Rightarrow> (v, True)
           | AnyString v \<Rightarrow>
               (case parseFloat lib v of
                  (f, None) \<Rightarrow> (f, True)
                | (f, Some err) \<Rightarrow> (0, False))
           | AnyInt v \<Rightarrow> (float64_of_int lib v, True)
           | AnyInt64 v \<Rightarrow> (float64_of_int lib v, True)
           | _ \<Rightarrow> (0, False))
      | None \<Rightarrow> (0, False))"

section \<open>Packages models and config\<close>

record 'f SensorData =
  Timestamp :: Time
  Temperature :: 'f
  Humidity :: 'f
  Light :: 'f
  Device_ID :: string

text \<open>Of the configuration only the topic and the table name are read by the code
  modelled here.\<close>

record MQTTConfig =
  Topic :: string

record TimescaleConfig =
  TableName :: string

record Config =
  MQTT :: MQTTConfig
  Timescale :: TimescaleConfig

section \<open>The database server behind the pgx connection\<close>

text \<open>
  The program talks to PostgreSQL with the TimescaleDB extension through four
  statements. The server is not code of the repository; it is modelled as far as those
  statements go: a catalog of relations in schema \<open>public\<close>, each with its columns, its
  time-partitioning column once it is a hypertable, and its rows.

  A statement is kept in the shape the source writes it. The column list of
  \<open>CREATE TABLE\<close> is kept as written: the text between the parentheses, split at the
  commas, each piece split into words. The server parses the pieces. Table names are
  taken as given: identifier folding, quoting and reserved words are not modelled, so
  the model speaks for names that are lower-case, unquoted identifiers (\<open>plain_ident\<close>)
  and rejects others.
\<close>

datatype pgtype = TIMESTAMPTZ | DOUBLE_PRECISION | TEXT

record column =
  colName :: string
  colType :: pgtype
  notNull :: bool

datatype 'f datum = DTime Time | DFloat 'f | DText string | DNull

record 'f relation =
  columns :: "column list"
  timeColumn :: "string option"
  tuples :: "'f datum list list"
  skipInserts :: bool

text \<open>\<open>timeColumn\<close> is \<open>Some c\<close> for a hypertable partitioned on \<open>c\<close>. \<open>skipInserts\<close> stands
  for a row trigger or rule on the relation that cancels inserts: the statement then
  succeeds with a row count of zero.\<close>

record 'f database =
  relations :: "string \<rightharpoonup> 'f relation"
  timescaledb :: bool

datatype sql =
    SelectTableExists
  | CreateTable string "string list list"
  | SelectCreateHypertable string string bool
  | InsertInto string "string list" "nat list"

text \<open>
  \<^item> \<open>SelectTableExists\<close>: \<open>SELECT EXISTS (SELECT FROM information_schema.tables WHERE
    table_schema = 'public' AND table_name = $1)\<close>;
  \<^item> \<open>CreateTable t items\<close>: \<open>CREATE TABLE t (items)\<close>;
  \<^item> \<open>SelectCreateHypertable t c b\<close>: \<open>SELECT create_hypertable('t', 'c')\<close>, with
    \<open>if_not_exists => TRUE\<close> as third argument when \<open>b\<close>;
  \<^item> \<open>InsertInto t cols ps\<close>: \<open>INSERT INTO t (cols) VALUES ($p1, ..., $pn)\<close>.
\<close>

datatype reply = Row bool | Tag nat

definition lower_letter :: "char \<Rightarrow> bool" where
  "lower_letter c = (c \<in> set ''abcdefghijklmnopqrstuvwxyz_'')"

definition digit_char :: "char \<Rightarrow> bool" where
  "digit_char c = (c \<in> set ''0123456789'')"

definition plain_ident :: "string \<Rightarrow> bool" where
  "plain_ident s =
     (case s of
        [] \<Rightarrow> False
      | c # cs \<Rightarrow> lower_letter c \<and> list_all (\<lambda>d. lower_letter d \<or> digit_char d) cs)"

fun parse_type :: "string list \<Rightarrow> (pgtype \<times> string list) option" where
  "parse_type (w # ws) =
     (if w = ''TIMESTAMPTZ'' then Some (TIMESTAMPTZ, ws)
      else if w = ''TEXT'' then Some (TEXT, ws)
      else if w = ''DOUBLE'' then
        (case ws of
           v # vs \<Rightarrow> if v = ''PRECISION'' then Some (DOUBLE_PRECISION, vs) else None
         | [] \<Rightarrow> None)
      else None)"
| "parse_type [] = None"

definition parse_coldef :: "string list \<Rightarrow> column option" where
  "parse_coldef ws =
     (case ws of
        [] \<Rightarrow> None
      | n # rest \<Rightarrow>
          if \<not> plain_ident n then None
          else
            (case parse_type rest of
               None \<Rightarrow> None
             | Some (ty, cs) \<Rightarrow>
                 if cs = [] then Some \<lparr>colName = n, colType = ty, notNull = False\<rparr>
                 else if cs = [''NOT'', ''NULL''] then Some \<lparr>colName = n, colType = ty, notNull = True\<rparr>
                 else None))"

fun parse_coldefs :: "string list list \<Rightarrow> column list option" where
  "parse_coldefs [] = Some []"
| "parse_coldefs (ws # rest) =
     (case parse_coldef ws of
        None \<Rightarrow> None
      | Some col \<Rightarrow> map_option (Cons col) (parse_coldefs rest))"

definition fits :: "'f datum \<Rightarrow> pgtype \<Rightarrow> bool" where
  "fits d ty =
     (case d of
        DTime t \<Rightarrow> ty = TIMESTAMPTZ
      | DFloat x \<Rightarrow> ty = DOUBLE_PRECISION
      | DText s \<Rightarrow> ty = TEXT
      | DNull \<Rightarrow> True)"

text \<open>The value an insert gives column \<open>col\<close>: the parameter at the column's place in the
  target list, NULL for a column that is not a target.\<close>

fun value_for :: "string list \<Rightarrow> 'f datum list \<Rightarrow> string \<Rightarrow> 'f datum" where
  "value_for (c # cs) (v # vs) col = (if c = col then v else value_for cs vs col)"
| "value_for cs vs col = DNull"

fun params :: "nat list \<Rightarrow> 'f datum list \<Rightarrow> 'f datum list option" where
  "params [] args = Some []"
| "params (p # ps) args =
     (if 1 \<le> p \<and> p \<le> length args
      then map_option (Cons (args ! (p - 1))) (params ps args)
      else None)"

definition pg_insert ::
  "'f relation \<Rightarrow> string list \<Rightarrow> 'f datum list \<Rightarrow> sqlstate + (nat \<times> 'f relation)" where
  "pg_insert rel cols vals =
     (if \<not> (set cols \<subseteq> set (map colName (columns rel))) then Inl Undefined_column
      else if length cols \<noteq> length vals \<or> \<not> distinct cols then Inl Syntax_error
      else
        (let row = map (\<lambda>col. value_for cols vals (colName col)) (columns rel) in
         if \<not> list_all (\<lambda>(col, v). fits v (colType col)) (zip (columns rel) row)
         then Inl Datatype_mismatch
         else if list_ex (\<lambda>(col, v). notNull col \<and> v = DNull) (zip (columns rel) row)
         then Inl Not_null_violation
         else if skipInserts rel then Inr (0, rel)
         else Inr (1, rel\<lparr>tuples := tuples rel @ [row]\<rparr>)))"

definition pg_exec ::
  "'f database \<Rightarrow> sql \<Rightarrow> 'f datum list \<Rightarrow> sqlstate + (reply \<times> 'f database)" where
  "pg_exec db q args =
     (case q of
        SelectTableExists \<Rightarrow>
          (case args of
             [DText n] \<Rightarrow> Inr (Row (n \<in> dom (relations db)), db)
           | _ \<Rightarrow> Inl Datatype_mismatch)
      | CreateTable t items \<Rightarrow>
          if \<not> plain_ident t then Inl Syntax_error
          else
            (case parse_coldefs items of
               None \<Rightarrow> Inl Syntax_error
             | Some cols \<Rightarrow>
                 if t \<in> dom (relations db) then Inl Duplicate_table
                 else if \<not> distinct (map colName cols) then Inl Syntax_error
                 else Inr (Tag 0, db\<lparr>relations := (relations db)(t \<mapsto>
                        \<lparr>columns = cols, timeColumn = None, tuples = [], skipInserts = False\<rparr>)\<rparr>))
      | SelectCreateHypertable t c if_not_exists \<Rightarrow>
          if \<not> timescaledb db then Inl Undefined_function
          else
            (case relations db t of
               None \<Rightarrow> Inl Undefined_table
             | Some rel \<Rightarrow>
                 if timeColumn rel \<noteq> None then
                   (if if_not_exists then Inr (Row False, db) else Inl Hypertable_exists)
                 else
                   (case find (\<lambda>col. colName col = c) (columns rel) of
                      None \<Rightarrow> Inl Undefined_column
                    | Some col \<Rightarrow>
                        if colType col \<noteq> TIMESTAMPTZ then Inl Datatype_mismatch
                        else if tuples rel \<noteq> [] then Inl Hypertable_not_empty
                        else Inr (Row True, db\<lparr>relations := (relations db)(t \<mapsto>
                               rel\<lparr>timeColumn := Some c\<rparr>)\<rparr>)))
      | InsertInto t cols ps \<Rightarrow>
          (case relations db t of
             None \<Rightarrow> Inl Undefined_table
           | Some rel \<Rightarrow>
               (case params ps args of
                  None \<Rightarrow> Inl Syntax_error
                | Some vals \<Rightarrow>
                    (case pg_insert rel cols vals of
                       Inl st \<Rightarrow> Inl st
                     | Inr (n, rel') \<Rightarrow>
                         Inr (Tag n, db\<lparr>relations := (relations db)(t \<mapsto> rel')\<rparr>)))))"

section \<open>The pgx connection\<close>

text \<open>
  A \<open>pgx.Conn\<close>: the server it is connected to, every statement it was asked to run
  with its parameters (\<open>sent\<close>, one entry per call of \<open>QueryRow\<close> or \<open>Exec\<close>; nothing in the
  program reads it, it is there to count the calls), and \<open>faults\<close>, which says for each
  coming call whether the transport fails on it (an empty list: no failure).
\<close>

record 'f Conn =
  server :: "'f database"
  sent :: "(sql \<times> 'f datum list) list"
  faults :: "bool list"

definition request :: "'f Conn \<Rightarrow> sql \<Rightarrow> 'f datum list \<Rightarrow> (error + reply) \<times> 'f Conn" where
  "request c q args =
     (let c1 = c\<lparr>sent := sent c @ [(q, args)], faults := tl (faults c)\<rparr> in
      if faults c \<noteq> [] \<and> hd (faults c) then (Inl (PgError Connection_failure), c1)
      else
        (case pg_exec (server c) q args of
           Inl st \<Rightarrow> (Inl (PgError st), c1)
         | Inr (r, db') \<Rightarrow> (Inr r, c1\<lparr>server := db'\<rparr>)))"

text \<open>\<open>conn.QueryRow(ctx, q, args...).Scan(&exists)\<close> for a \<open>bool\<close> destination.\<close>

definition QueryRow_Scan :: "'f Conn \<Rightarrow> sql \<Rightarrow> 'f datum list \<Rightarrow> (error + bool) \<times> 'f Conn" where
  "QueryRow_Scan c q args =
     (case request c q args of
        (Inl err, c') \<Rightarrow> (Inl err, c')
      | (Inr (Row b), c') \<Rightarrow> (Inr b, c')
      | (Inr (Tag n), c') \<Rightarrow> (Inl (LibError ''no rows in result set''), c'))"

text \<open>\<open>conn.Exec(ctx, q, args...)\<close>: the command tag's \<open>RowsAffected()\<close>, or the error.\<close>

definition Exec :: "'f Conn \<Rightarrow> sql \<Rightarrow> 'f datum list \<Rightarrow> (error + nat) \<times> 'f Conn" where
  "Exec c q args =
     (case request c q args of
        (Inl err, c') \<Rightarrow> (Inl err, c')
      | (Inr (Row b), c') \<Rightarrow> (Inr 1, c')
      | (Inr (Tag n), c') \<Rightarrow> (Inr n, c'))"

section \<open>Package database\<close>

text \<open>
  The repository holds the package twice (src/unnamed/part_001, lines 1-106 and lines
  108-226). The two files declare the same type and methods and differ in three places:
  the column list of \<open>CREATE TABLE\<close>, the \<open>if_not_exists\<close> argument of
  \<open>create_hypertable\<close>, and the logging in \<open>InsertSensorData\<close>. Both are modelled: the file
  at lines 108-226 under the source's names, the file at lines 1-106 with the suffix
  \<open>_A\<close>.
\<close>

record 'f TimescaleDB =
  conn :: "'f Conn"
  config :: Config

text \<open>\<open>InitializeTable\<close>, lines 146-196. The result is the lines logged, the error
  returned (\<open>None\<close> for nil) and the receiver afterwards.\<close>

definition InitializeTable ::
  "'f TimescaleDB \<Rightarrow> 'f logline list \<times> error option \<times> 'f TimescaleDB" where
  "InitializeTable db =
     (let tableName = TableName (Timescale (config db)) in
      case QueryRow_Scan (conn db) SelectTableExists [DText tableName] of
        (Inl err, c1) \<Rightarrow>
          ([], Some (Errorf ''failed to check if table exists'' err), db\<lparr>conn := c1\<rparr>)
      | (Inr exists, c1) \<Rightarrow>
          if \<not> exists then
            (case Exec c1 (CreateTable tableName
                    [[''time'', ''TIMESTAMPTZ'', ''NOT'', ''NULL''],
                     [''temperature'', ''DOUBLE'', ''PRECISION''],
                     [''humidity'', ''DOUBLE'', ''PRECISION''],
                     [''light'', ''DOUBLE'', ''PRECISION''],
                     [''device_id'', ''TEXT'', ''NOT'', ''NULL'']]) [] of
               (Inl err, c2) \<Rightarrow>
                 ([Printf ''Creating table %s...'' [LStr tableName]],
                  Some (Errorf ''failed to create table'' err), db\<lparr>conn := c2\<rparr>)
             | (Inr n, c2) \<Rightarrow>
                 (case Exec c2 (SelectCreateHypertable tableName ''time'' True) [] of
                    (Inl err, c3) \<Rightarrow>
                      ([Printf ''Creating table %s...'' [LStr tableName]],
                       Some (Errorf ''failed to convert table to hypertable'' err),
                       db\<lparr>conn := c3\<rparr>)
                  | (Inr m, c3) \<Rightarrow>
                      ([Printf ''Creating table %s...'' [LStr tableName],
                        Printf ''Table %s created and converted to hypertable'' [LStr tableName]],
                       None, db\<lparr>conn := c3\<rparr>)))
          else ([Printf ''Table %s already exists'' [LStr tableName]], None, db\<lparr>conn := c1\<rparr>))"

text \<open>\<open>InitializeTable\<close>, lines 39-89. In the column list the comma after
  \<open>light DOUBLE PRECISION\<close> is missing and one follows \<open>device_id TEXT NOT NULL\<close>: split
  at its commas the list has five pieces, the fourth holding two columns' words and the
  fifth empty. \<open>create_hypertable\<close> is called with two arguments.\<close>

definition InitializeTable_A ::
  "'f TimescaleDB \<Rightarrow> 'f logline list \<times> error option \<times> 'f TimescaleDB" where
  "InitializeTable_A db =
     (let tableName = TableName (Timescale (config db)) in
      case QueryRow_Scan (conn db) SelectTableExists [DText tableName] of
        (Inl err, c1) \<Rightarrow>
          ([], Some (Errorf ''failed to check if table exists'' err), db\<lparr>conn := c1\<rparr>)
      | (Inr exists, c1) \<Rightarrow>
          if \<not> exists then
            (case Exec c1 (CreateTable tableName
                    [[''time'', ''TIMESTAMPTZ'', ''NOT'', ''NULL''],
                     [''temperature'', ''DOUBLE'', ''PRECISION''],
                     [''humidity'', ''DOUBLE'', ''PRECISION''],
                     [''light'', ''DOUBLE'', ''PRECISION'', ''device_id'', ''TEXT'', ''NOT'', ''NULL''],
                     []]) [] of
               (Inl err, c2) \<Rightarrow>
                 ([Printf ''Creating table %s...'' [LStr tableName]],
                  Some (Errorf ''failed to create table'' err), db\<lparr>conn := c2\<rparr>)
             | (Inr n, c2) \<Rightarrow>
                 (case Exec c2 (SelectCreateHypertable tableName ''time'' False) [] of
                    (Inl err, c3) \<Rightarrow>
                      ([Printf ''Creating table %s...'' [LStr tableName]],
                       Some (Errorf ''failed to convert table to hypertable'' err),
                       db\<lparr>conn := c3\<rparr>)
                  | (Inr m, c3) \<Rightarrow>
                      ([Printf ''Creating table %s...'' [LStr tableName],
                        Printf ''Table %s created and converted to hypertable'' [LStr tableName]],
                       None, db\<lparr>conn := c3\<rparr>)))
          else ([Printf ''Table %s already exists'' [LStr tableName]], None, db\<lparr>conn := c1\<rparr>))"

text \<open>\<open>InsertSensorData\<close>, lines 199-226: it logs the statement, sends it, and logs the
  row count of the command tag.\<close>

definition InsertSensorData ::
  "'f TimescaleDB \<Rightarrow> 'f SensorData \<Rightarrow> 'f logline list \<times> error option \<times> 'f TimescaleDB" where
  "InsertSensorData db data =
     (let tableName = TableName (Timescale (config db));
          line1 = Printf ''DB INSERT -> table=%s time=%s temperature=%.3f humidity=%.3f light=%.3f device_id=%s''
                    [LStr tableName, LTime (Timestamp data), LFloat (Temperature data),
                     LFloat (Humidity data), LFloat (Light data), LStr (Device_ID data)]
      in case Exec (conn db)
                (InsertInto tableName [''time'', ''temperature'', ''humidity'', ''light'', ''device_id'']
                   [1, 2, 3, 4, 5])
                [DTime (Timestamp data), DFloat (Temperature data), DFloat (Humidity data),
                 DFloat (Light data), DText (Device_ID data)] of
           (Inl err, c1) \<Rightarrow>
             ([line1], Some (Errorf ''failed to insert sensor data'' err), db\<lparr>conn := c1\<rparr>)
         | (Inr rowsAffected, c1) \<Rightarrow>
             ([line1, Printf ''DB INSERT affected rows: %d'' [LInt (int rowsAffected)]],
              None, db\<lparr>conn := c1\<rparr>))"

text \<open>\<open>InsertSensorData\<close>, lines 92-106: the same statement, nothing logged.\<close>

definition InsertSensorData_A ::
  "'f TimescaleDB \<Rightarrow> 'f SensorData \<Rightarrow> 'f logline list \<times> error option \<times> 'f TimescaleDB" where
  "InsertSensorData_A db data =
     (let tableName = TableName (Timescale (config db))
      in case Exec (conn db)
                (InsertInto tableName [''time'', ''temperature'', ''humidity'', ''light'', ''device_id'']
                   [1, 2, 3, 4, 5])
                [DTime (Timestamp data), DFloat (Temperature data), DFloat (Humidity data),
                 DFloat (Light data), DText (Device_ID data)] of
           (Inl err, c1) \<Rightarrow>
             ([], Some (Errorf ''failed to insert sensor data'' err), db\<lparr>conn := c1\<rparr>)
         | (Inr rowsAffected, c1) \<Rightarrow> ([], None, db\<lparr>conn := c1\<rparr>))"

section \<open>Package mqtt: the client\<close>

text \<open>A \<open>chan struct{}\<close> on which nothing is ever sent: all that matters is whether it
  is nil, open or closed. \<open>close\<close> panics on a nil and on a closed channel.\<close>

datatype chan = NilChan | OpenChan | ClosedChan

datatype panic = Close_of_nil_channel | Close_of_closed_channel

text \<open>Modelled from the spec: the state of the publish/subscribe session (section 4.3).
  It lives inside the paho client, whose code is not part of the repository.\<close>

datatype session = Disconnected | Connected | Subscribed | Reconnecting

record 'f Client =
  client :: session
  db :: "'f TimescaleDB"
  config :: Config
  stopChan :: chan

definition NewClient :: "Config \<Rightarrow> 'f TimescaleDB \<Rightarrow> 'f Client" where
  "NewClient cfg d = \<lparr>client = Disconnected, db = d, config = cfg, stopChan = OpenChan\<rparr>"

definition close :: "chan \<Rightarrow> panic + chan" where
  "close ch =
     (case ch of
        NilChan \<Rightarrow> Inl Close_of_nil_channel
      | OpenChan \<Rightarrow> Inr ClosedChan
      | ClosedChan \<Rightarrow> Inl Close_of_closed_channel)"

definition Stop :: "'f Client \<Rightarrow> panic + 'f Client" where
  "Stop c =
     (case close (stopChan c) of
        Inl p \<Rightarrow> Inl p
      | Inr ch \<Rightarrow> Inr (c\<lparr>stopChan := ch\<rparr>))"

text \<open>\<open>WaitForStop\<close> receives from the channel. The receive returns once the channel is
  closed; on an open or nil channel it blocks, which is the value \<open>None\<close>.\<close>

definition WaitForStop :: "'f Client \<Rightarrow> unit option" where
  "WaitForStop c = (if stopChan c = ClosedChan then Some () else None)"

text \<open>\<open>processMessage\<close>, lines 105-152. The result is the lines logged and the client
  afterwards; the function has no other way out. The insert called is the copy at
  lines 199-226; with the other copy the result differs only in the lines the insert
  itself logs.\<close>

definition processMessage ::
  "('f::zero) golib \<Rightarrow> clock \<Rightarrow> 'f Client \<Rightarrow> string \<Rightarrow> 'f logline list \<times> 'f Client" where
  "processMessage lib clk c payload =
     (case json_Unmarshal lib payload of
        Inl err \<Rightarrow> ([Printf ''Error unmarshaling message: %v'' [LErr err]], c)
      | Inr rawData \<Rightarrow>
          (let (log1, timestamp) =
                 (case rawData ''timestamp'' of
                    Some (AnyString tsStr) \<Rightarrow>
                      (case time_Parse lib RFC3339 tsStr of
                         Inl err \<Rightarrow>
                           ([Printf ''Error parsing timestamp: %v'' [LErr err]], time_Now clk)
                       | Inr t \<Rightarrow> ([], t))
                  | _ \<Rightarrow> ([], time_Now clk));
               temperature = fst (getFloat64Value lib rawData ''temperature'');
               humidity = fst (getFloat64Value lib rawData ''humidity'');
               light = fst (getFloat64Value lib rawData ''light'')
           in case rawData ''device_id'' of
                Some (AnyString device_id) \<Rightarrow>
                  (let sensorData = \<lparr>Timestamp = timestamp, Temperature = temperature,
                         Humidity = humidity, Light = light, Device_ID = device_id\<rparr>
                   in case InsertSensorData (db c) sensorData of
                        (log2, Some err, d) \<Rightarrow>
                          (log1 @ log2 @ [Printf ''Error inserting sensor data: %v'' [LErr err]],
                           c\<lparr>db := d\<rparr>)
                      | (log2, None, d) \<Rightarrow>
                          (log1 @ log2 @
                           [Printf ''Successfully processed and stored sensor data: time=%v, temp=%.2f, humidity=%.2f, light=%.2f''
                              [LTime timestamp, LFloat temperature, LFloat humidity, LFloat light]],
                           c\<lparr>db := d\<rparr>))
              | _ \<Rightarrow> (log1 @ [Println ''Error: device_id is missing or not a string''], c)))"

text \<open>The handler that \<open>Subscribe\<close> registers (lines 75-78).\<close>

definition handler ::
  "('f::zero) golib \<Rightarrow> clock \<Rightarrow> 'f Client \<Rightarrow> string \<Rightarrow> string \<Rightarrow> 'f logline list \<times> 'f Client" where
  "handler lib clk c topic payload =
     (let (lg, c') = processMessage lib clk c payload
      in (Printf ''Received message on topic %s: %s'' [LStr topic, LStr payload] # lg, c'))"

section \<open>Package config: the defaults\<close>

text \<open>\<open>GetDefaultConfig\<close>, for the fields kept here. The repository holds the file
  twice. The table name is the same in both; the topic is that of the copy whose function
  is at lines 68-90 (the other copy has \<open>sensor/#\<close>). No property below reads the topic.\<close>

definition GetDefaultConfig :: Config where
  "GetDefaultConfig =
     \<lparr>MQTT = \<lparr>Topic = ''sensors/data''\<rparr>, Timescale = \<lparr>TableName = ''sensor_data''\<rparr>\<rparr>"

section \<open>Notions used to state the properties\<close>

subsection \<open>What a call sent to the store\<close>

text \<open>The statements a client's connection sent between two states of the client, and
  the statement with its parameters that stores a record \<open>r\<close> in table \<open>t\<close>. A record
  reaches the store exactly when the handler sends \<open>insert_of t r\<close>.\<close>

definition sent_by :: "'f Client \<Rightarrow> 'f Client \<Rightarrow> (sql \<times> 'f datum list) list" where
  "sent_by c c' = drop (length (sent (conn (db c)))) (sent (conn (db c')))"

definition insert_of :: "string \<Rightarrow> 'f SensorData \<Rightarrow> sql \<times> 'f datum list" where
  "insert_of t r =
     (InsertInto t [''time'', ''temperature'', ''humidity'', ''light'', ''device_id''] [1, 2, 3, 4, 5],
      [DTime (Timestamp r), DFloat (Temperature r), DFloat (Humidity r), DFloat (Light r),
       DText (Device_ID r)])"

definition table_of :: "'f Client \<Rightarrow> string" where
  "table_of c = TableName (Timescale (TimescaleDB.config (db c)))"

subsection \<open>The decoding rules in the specification's words\<close>

text \<open>A numeric string in decimal notation: an optional sign, digits with an optional
  point and fraction (at least one digit in all), and optionally a decimal exponent:
  \<open>e\<close> or \<open>E\<close>, an optional sign, and at least one digit.\<close>

definition exponent_part :: "string \<Rightarrow> bool" where
  "exponent_part ex =
     (case ex of
        [] \<Rightarrow> False
      | e # r \<Rightarrow>
          e \<in> set ''eE'' \<and>
          (let ed = (case r of [] \<Rightarrow> [] | c # r' \<Rightarrow> if c \<in> set sign then r' else r)
           in ed \<noteq> [] \<and> list_all digit_char ed))"

definition numeric_string :: "string \<Rightarrow> bool" where
  "numeric_string s =
     (let body = (case s of [] \<Rightarrow> [] | c # r \<Rightarrow> if c \<in> set sign then r else s);
          ip = takeWhile digit_char body;
          r1 = dropWhile digit_char body;
          point = (r1 \<noteq> [] \<and> hd r1 = CHR ''.'');
          fd = (if point then takeWhile digit_char (tl r1) else []);
          r2 = (if point then dropWhile digit_char (tl r1) else r1)
      in (ip \<noteq> [] \<or> fd \<noteq> []) \<and> (r2 = [] \<or> exponent_part r2))"

text \<open>White space that may stand before a number: tab, vertical tab, form feed, carriage
  return and space, by their codes. A line feed is not among them.\<close>

definition blank :: "char \<Rightarrow> bool" where
  "blank c = ((of_char c :: nat) \<in> set [9, 11, 12, 13, 32])"

text \<open>A character that can make a number go on after a decimal numeral (a digit, the
  point, an underscore, an exponent letter, the \<open>x\<close> of a hexadecimal prefix), and a
  character a number, \<open>nan\<close> or \<open>inf\<close> can begin with.\<close>

definition continues :: "char \<Rightarrow> bool" where
  "continues c = (c \<in> set ''0123456789._eEpPxX'')"

definition begins :: "char \<Rightarrow> bool" where
  "begins c = (c \<in> set ''0123456789+-._nNiIeEpP'')"

text \<open>The longest prefix of \<open>t\<close>, of length at most \<open>n\<close>, that is a numeric string.\<close>

fun numeric_prefix :: "string \<Rightarrow> nat \<Rightarrow> string option" where
  "numeric_prefix t 0 = None"
| "numeric_prefix t (Suc n) =
     (if numeric_string (take (Suc n) t) then Some (take (Suc n) t) else numeric_prefix t n)"

text \<open>
  How a string reads as a number: white space at its start is skipped, the number it then
  begins with is the text that counts, and what follows the number is ignored.
  \<^item> \<open>Nothing\<close>: nothing is left after the white space, or a line feed comes first;
  \<^item> \<open>Token tok\<close>: \<open>tok\<close> is the text that counts: the longest numeric prefix of what is
    left, provided no character that continues a number follows it; or the empty text,
    when what is left begins with no character of a number;
  \<^item> \<open>Unsettled\<close>: every other string (a numeral with a dangling exponent letter as in
    \<open>24.5e\<close>, an underscore or a hexadecimal prefix, \<open>nan\<close> and \<open>inf\<close>, a lone sign or point,
    a first byte outside ASCII): what counts there is told by the scan of \<open>fmt\<close> alone.
\<close>

datatype reading = Nothing | Token string | Unsettled

definition reading_of :: "string \<Rightarrow> reading" where
  "reading_of s =
     (let t = dropWhile blank s in
      if t = [] \<or> (of_char (hd t) :: nat) = 10 then Nothing
      else
        (case numeric_prefix t (length t) of
           Some tok \<Rightarrow>
             (case drop (length tok) t of
                [] \<Rightarrow> Token tok
              | d # _ \<Rightarrow> if continues d then Unsettled else Token tok)
         | None \<Rightarrow>
             if begins (hd t) \<or> 128 \<le> (of_char (hd t) :: nat) then Unsettled else Token []))"

text \<open>The value of a text under \<open>strconv.ParseFloat\<close>, and the value \<open>fmt.Sscanf\<close> scans
  from a string with the verb \<open>%f\<close>; zero when the library reports an error.\<close>

definition parsed :: "('f::zero) golib \<Rightarrow> string \<Rightarrow> 'f" where
  "parsed lib tok = (case strconv_ParseFloat lib tok of Inr v \<Rightarrow> v | Inl err \<Rightarrow> 0)"

definition scanned :: "('f::zero) golib \<Rightarrow> string \<Rightarrow> 'f" where
  "scanned lib s = (case Sscanf_f lib s of Inr v \<Rightarrow> v | Inl err \<Rightarrow> 0)"

text \<open>\<open>coerced lib field x\<close>: \<open>x\<close> is the value of a numeric field whose entry in the message
  is \<open>field\<close>. A float stands for itself, an integer is converted, an absent field and a
  value of any other type are worth zero. A string is worth what the \<open>%f\<close> scan makes of
  it, zero when the scan fails; that is zero when the string reads as \<open>Nothing\<close>, and what
  \<open>strconv.ParseFloat\<close> makes of the token when it reads as a token (zero when the token
  has no float64 value, as the empty one has none in Go). A numeric string is its own
  token.\<close>

definition coerced :: "('f::zero) golib \<Rightarrow> 'f any option \<Rightarrow> 'f \<Rightarrow> bool" where
  "coerced lib field x =
     (case field of
        None \<Rightarrow> x = 0
      | Some (AnyFloat64 v) \<Rightarrow> x = v
      | Some (AnyInt i) \<Rightarrow> x = float64_of_int lib i
      | Some (AnyInt64 i) \<Rightarrow> x = float64_of_int lib i
      | Some (AnyString s) \<Rightarrow>
          x = scanned lib s \<and>
          (case reading_of s of
             Nothing \<Rightarrow> x = 0
           | Token tok \<Rightarrow> x = parsed lib tok
           | Unsettled \<Rightarrow> True)
      | Some other \<Rightarrow> x = 0)"

datatype DecodeFailure = malformed | missingDeviceID

definition decode_failure :: "'f golib \<Rightarrow> string \<Rightarrow> DecodeFailure option" where
  "decode_failure lib payload =
     (case json_Unmarshal lib payload of
        Inl err \<Rightarrow> Some malformed
      | Inr rawData \<Rightarrow>
          (case rawData ''device_id'' of
             Some (AnyString d) \<Rightarrow> None
           | _ \<Rightarrow> Some missingDeviceID))"

subsection \<open>The record \<open>processMessage\<close> builds\<close>

text \<open>Lines 112-142 of client.go, read off for a message that parsed to \<open>rawData\<close> and
  whose device id is the string \<open>dev\<close>.\<close>

definition timestamp_of :: "'f golib \<Rightarrow> clock \<Rightarrow> 'f any option \<Rightarrow> Time" where
  "timestamp_of lib clk field =
     (case field of
        Some (AnyString tsStr) \<Rightarrow>
          (case time_Parse lib RFC3339 tsStr of Inr t \<Rightarrow> t | Inl err \<Rightarrow> time_Now clk)
      | _ \<Rightarrow> time_Now clk)"

definition built :: "('f::zero) golib \<Rightarrow> clock \<Rightarrow> (string \<rightharpoonup> 'f any) \<Rightarrow> string \<Rightarrow> 'f SensorData" where
  "built lib clk rawData dev =
     \<lparr>Timestamp = timestamp_of lib clk (rawData ''timestamp''),
      Temperature = fst (getFloat64Value lib rawData ''temperature''),
      Humidity = fst (getFloat64Value lib rawData ''humidity''),
      Light = fst (getFloat64Value lib rawData ''light''),
      Device_ID = dev\<rparr>"

subsection \<open>The scanner after the sign\<close>

text \<open>The last part of \<open>floatToken\<close>, from the test for a leading zero on, as a function
  of the scanner state reached.\<close>

definition number_part :: "ss \<Rightarrow> ss" where
  "number_part s7 =
     (let (z, s8) = accept ''0'' s7;
          (x, s9) = (if z then accept ''xX'' s8 else (False, s8));
          digits = (if x then hexadecimalDigits @ ''_'' else decimalDigits @ ''_'');
          exp' = (if x then ''pP'' else exponent);
          s10 = accept_loop digits (fst s9) (snd s9);
          (p, s11) = accept period s10;
          s12 = (if p then accept_loop digits (fst s11) (snd s11) else s11);
          (e, s13) = accept exp' s12
      in if e then
           (let (sg2, s14) = accept sign s13
            in accept_loop (decimalDigits @ ''_'') (fst s14) (snd s14))
         else s13)"

subsection \<open>The schema and the statements that create it\<close>

text \<open>The column set of the specification (section 6), and the two \<open>CREATE TABLE\<close>
  statements of the source under a name each.\<close>

definition sensor_columns :: "column list" where
  "sensor_columns =
     [\<lparr>colName = ''time'', colType = TIMESTAMPTZ, notNull = True\<rparr>,
      \<lparr>colName = ''temperature'', colType = DOUBLE_PRECISION, notNull = False\<rparr>,
      \<lparr>colName = ''humidity'', colType = DOUBLE_PRECISION, notNull = False\<rparr>,
      \<lparr>colName = ''light'', colType = DOUBLE_PRECISION, notNull = False\<rparr>,
      \<lparr>colName = ''device_id'', colType = TEXT, notNull = True\<rparr>]"

definition create_stmt :: "string \<Rightarrow> sql" where
  "create_stmt t = CreateTable t
     [[''time'', ''TIMESTAMPTZ'', ''NOT'', ''NULL''],
      [''temperature'', ''DOUBLE'', ''PRECISION''],
      [''humidity'', ''DOUBLE'', ''PRECISION''],
      [''light'', ''DOUBLE'', ''PRECISION''],
      [''device_id'', ''TEXT'', ''NOT'', ''NULL'']]"

definition create_stmt_A :: "string \<Rightarrow> sql" where
  "create_stmt_A t = CreateTable t
     [[''time'', ''TIMESTAMPTZ'', ''NOT'', ''NULL''],
      [''temperature'', ''DOUBLE'', ''PRECISION''],
      [''humidity'', ''DOUBLE'', ''PRECISION''],
      [''light'', ''DOUBLE'', ''PRECISION'', ''device_id'', ''TEXT'', ''NOT'', ''NULL''],
      []]"

definition fresh_relation :: "'f relation" where
  "fresh_relation = \<lparr>columns = sensor_columns, timeColumn = None, tuples = [], skipInserts = False\<rparr>"

definition line1_of :: "string \<Rightarrow> 'f SensorData \<Rightarrow> 'f logline" where
  "line1_of t r =
     Printf ''DB INSERT -> table=%s time=%s temperature=%.3f humidity=%.3f light=%.3f device_id=%s''
       [LStr t, LTime (Timestamp r), LFloat (Temperature r), LFloat (Humidity r),
        LFloat (Light r), LStr (Device_ID r)]"

definition rows_of :: "reply \<Rightarrow> nat" where
  "rows_of rep = (case rep of Row b \<Rightarrow> 1 | Tag n \<Rightarrow> n)"

section \<open>Worked inputs\<close>

text \<open>
  Concrete inputs for the instances below. Floats are rationals here. The library
  instance answers like the Go libraries on the inputs listed and with an error
  elsewhere: six message bodies for \<open>json.Unmarshal\<close>, one timestamp for \<open>time.Parse\<close>,
  two numerals for \<open>strconv.ParseFloat\<close>.
\<close>

definition connected :: "'f database \<Rightarrow> 'f Conn" where
  "connected s = \<lparr>server = s, sent = [], faults = []\<rparr>"

definition empty_database :: "'f database" where
  "empty_database = \<lparr>relations = Map.empty, timescaledb = True\<rparr>"

definition ready_database :: "'f database" where
  "ready_database =
     \<lparr>relations = [''sensor_data'' \<mapsto> fresh_relation\<lparr>timeColumn := Some ''time''\<rparr>],
      timescaledb = True\<rparr>"

definition fresh_store :: "rat TimescaleDB" where
  "fresh_store = \<lparr>conn = connected empty_database, config = GetDefaultConfig\<rparr>"

definition ready_store :: "rat TimescaleDB" where
  "ready_store = \<lparr>conn = connected ready_database, config = GetDefaultConfig\<rparr>"

definition example_json :: "string \<Rightarrow> error + (string \<rightharpoonup> rat any)" where
  "example_json payload =
     (if payload = ''{\"timestamp\":\"2023-05-20T15:04:05Z\",\"temperature\":24.5,\"humidity\":65.25,\"light\":850,\"device_id\":\"sensor-1\"}''
      then Inr [''timestamp'' \<mapsto> AnyString ''2023-05-20T15:04:05Z'',
                ''temperature'' \<mapsto> AnyFloat64 (49 / 2), ''humidity'' \<mapsto> AnyFloat64 (261 / 4),
                ''light'' \<mapsto> AnyFloat64 850, ''device_id'' \<mapsto> AnyString ''sensor-1'']
      else if payload = ''{\"temperature\":\"18.5\",\"light\":true,\"device_id\":\"sensor-2\"}''
      then Inr [''temperature'' \<mapsto> AnyString ''18.5'', ''light'' \<mapsto> AnyBool True,
                ''device_id'' \<mapsto> AnyString ''sensor-2'']
      else if payload = ''{\"temperature\":\" 18.5 %\",\"humidity\":\"abc\",\"light\":\"\",\"device_id\":\"sensor-2\"}''
      then Inr [''temperature'' \<mapsto> AnyString '' 18.5 %'', ''humidity'' \<mapsto> AnyString ''abc'',
                ''light'' \<mapsto> AnyString '''', ''device_id'' \<mapsto> AnyString ''sensor-2'']
      else if payload = ''{\"temperature\":\"18.5C\",\"device_id\":\"sensor-3\"}''
      then Inr [''temperature'' \<mapsto> AnyString ''18.5C'', ''device_id'' \<mapsto> AnyString ''sensor-3'']
      else if payload = ''{\"temperature\":24.5}''
      then Inr [''temperature'' \<mapsto> AnyFloat64 (49 / 2)]
      else if payload = ''{\"device_id\":\"\"}''
      then Inr [''device_id'' \<mapsto> AnyString '''']
      else Inl (LibError ''invalid character''))"

definition example_time :: "string \<Rightarrow> string \<Rightarrow> error + Time" where
  "example_time layout v =
     (if layout = RFC3339 \<and> v = ''2023-05-20T15:04:05Z''
      then Inr \<lparr>unixNano = 1684595045000000000, zoneOffset = 0\<rparr>
      else Inl (LibError ''cannot parse''))"

definition example_float :: "string \<Rightarrow> error + rat" where
  "example_float s =
     (if s = ''24.5'' then Inr (49 / 2)
      else if s = ''18.5'' then Inr (37 / 2)
      else Inl (LibError ''invalid syntax''))"

definition example_lib :: "rat golib" where
  "example_lib =
     \<lparr>json_Unmarshal = example_json,
      time_Parse = example_time,
      strconv_ParseFloat = example_float,
      strconv_Atoi = (\<lambda>s. Inl (LibError ''invalid syntax'')),
      math_Ldexp = (\<lambda>f m. if 0 \<le> m then f * 2 ^ nat m else f / 2 ^ nat (- m)),
      float64_of_int = of_int\<rparr>"

definition example_clock :: clock where
  "example_clock = \<lparr>entered = 1700000000000000000, elapsed = 1500, localZone = 3600\<rparr>"

definition example_client :: "rat Client" where
  "example_client = NewClient GetDefaultConfig ready_store"

text \<open>A client whose connection fails on its next call, a store whose relation
  cancels inserts, and the record of the specification's first scenario.\<close>

definition faulty_client :: "rat Client" where
  "faulty_client =
     NewClient GetDefaultConfig
       \<lparr>conn = \<lparr>server = ready_database, sent = [], faults = [True]\<rparr>, config = GetDefaultConfig\<rparr>"

definition muted_store :: "rat TimescaleDB" where
  "muted_store =
     \<lparr>conn = connected
        \<lparr>relations = [''sensor_data'' \<mapsto>
           \<lparr>columns = sensor_columns, timeColumn = Some ''time'', tuples = [], skipInserts = True\<rparr>],
         timescaledb = True\<rparr>,
      config = GetDefaultConfig\<rparr>"

definition example_record :: "rat SensorData" where
  "example_record =
     \<lparr>Timestamp = \<lparr>unixNano = 1684595045000000000, zoneOffset = 0\<rparr>,
      Temperature = 49 / 2, Humidity = 261 / 4, Light = 850, Device_ID = ''sensor-1''\<rparr>"

section \<open>Facts about the scanner\<close>

lemmas scan_consts = sign_def period_def exponent_def decimalDigits_def hexadecimalDigits_def

lemma accept_loop_stop:
  "list_all digit_char xs \<Longrightarrow> rest = [] \<or> hd rest \<notin> set (decimalDigits @ ''_'') \<Longrightarrow>
   accept_loop (decimalDigits @ ''_'') buf (xs @ rest) = (buf @ xs, rest)"
proof (induction xs arbitrary: buf)
  case Nil
  then show ?case by (cases rest) (auto simp: scan_consts)
next
  case (Cons d ds)
  then show ?case by (auto simp: digit_char_def scan_consts)
qed

lemma exponent_part_shape:
  assumes "exponent_part ex"
  shows "\<exists>e sg2 ed. ex = e # sg2 @ ed \<and> e \<in> set ''eE'' \<and>
           (sg2 = [] \<or> (\<exists>c. sg2 = [c] \<and> c \<in> set sign)) \<and> ed \<noteq> [] \<and> list_all digit_char ed \<and>
           (sg2 = [] \<longrightarrow> hd ed \<notin> set sign)"
proof -
  obtain e r where ex: "ex = e # r" using assms by (cases ex) (auto simp: exponent_part_def)
  define ed where "ed = (case r of [] \<Rightarrow> [] | c # r' \<Rightarrow> if c \<in> set sign then r' else r)"
  define sg2 where "sg2 = (case r of [] \<Rightarrow> [] | c # r' \<Rightarrow> if c \<in> set sign then [c] else [])"
  have e: "e \<in> set ''eE''" and ed1: "ed \<noteq> []" and ed2: "list_all digit_char ed"
    using assms unfolding exponent_part_def ex ed_def by (simp_all add: Let_def)
  have r: "r = sg2 @ ed" by (auto simp: sg2_def ed_def split: list.splits)
  have sg: "sg2 = [] \<or> (\<exists>c. sg2 = [c] \<and> c \<in> set sign)"
    by (auto simp: sg2_def split: list.splits)
  have h: "sg2 = [] \<longrightarrow> hd ed \<notin> set sign"
  proof
    assume s0: "sg2 = []"
    obtain c r' where cr: "ed = c # r'" using ed1 by (meson neq_Nil_conv)
    then have "r = c # r'" using r s0 by simp
    then have "c \<notin> set sign" using s0 by (auto simp: sg2_def split: if_splits)
    then show "hd ed \<notin> set sign" using cr by simp
  qed
  show ?thesis using ex r e sg ed1 ed2 h by (intro exI conjI) auto
qed

lemma continues_facts:
  assumes "\<not> continues c"
  shows "c \<notin> set (decimalDigits @ ''_'')" "c \<notin> set exponent" "c \<notin> set period"
    "c \<notin> set ''xX''" "c \<notin> set ''0''" "c \<notin> set ''eE''"
  using assms by (simp_all add: continues_def scan_consts)

lemma exponent_tail:
  assumes "ex = [] \<or> exponent_part ex"
    and st: "rest = [] \<or> \<not> continues (hd rest)"
  shows "(let (e, s13) = accept exponent (b, ex @ rest)
          in if e then
               (let (sg2, s14) = accept sign s13
                in accept_loop (decimalDigits @ ''_'') (fst s14) (snd s14))
             else s13) = (b @ ex, rest)"
proof (cases "ex = []")
  case True
  have "accept exponent (b, rest) = (False, (b, rest))"
    using st continues_facts(2) by (cases rest) (auto simp: accept_def)
  then show ?thesis using True by simp
next
  case False
  then have "exponent_part ex" using assms by simp
  from exponent_part_shape[OF this] show ?thesis
  proof (elim exE conjE)
    fix e sg2 ed
    assume ex: "ex = e # sg2 @ ed" and e: "e \<in> set ''eE''"
      and sg: "sg2 = [] \<or> (\<exists>c. sg2 = [c] \<and> c \<in> set sign)"
      and ed1: "ed \<noteq> []" and ed2: "list_all digit_char ed"
      and h: "sg2 = [] \<longrightarrow> hd ed \<notin> set sign"
    have a1: "accept exponent (b, ex @ rest) = (True, (b @ [e], sg2 @ ed @ rest))"
      using ex e by (auto simp: accept_def exponent_def)
    have a2: "accept sign (b @ [e], sg2 @ ed @ rest) = (sg2 \<noteq> [], (b @ [e] @ sg2, ed @ rest))"
    proof (cases "sg2 = []")
      case True
      obtain c r' where cr: "ed = c # r'" using ed1 by (meson neq_Nil_conv)
      then have "c \<notin> set sign" using h True by simp
      then show ?thesis using True cr by (simp add: accept_def)
    next
      case False
      then obtain c where "sg2 = [c]" "c \<in> set sign" using sg by auto
      then show ?thesis by (simp add: accept_def)
    qed
    have st': "rest = [] \<or> hd rest \<notin> set (decimalDigits @ ''_'')"
      using st continues_facts(1) by blast
    have a3: "accept_loop (decimalDigits @ ''_'') (b @ [e] @ sg2) (ed @ rest) = ((b @ [e] @ sg2) @ ed, rest)"
      by (rule accept_loop_stop[OF ed2 st'])
    show ?thesis using a1 a2 a3 ex by simp
  qed
qed

lemma exponent_start:
  assumes "ex = [] \<or> exponent_part ex"
  shows "ex = [] \<or> hd ex \<in> set ''eE''"
  using assms by (cases ex) (auto simp: exponent_part_def)

lemma number_part_numeric:
  assumes ip: "list_all digit_char ip"
    and fr: "fr = [] \<or> (\<exists>fd. fr = CHR ''.'' # fd \<and> list_all digit_char fd)"
    and ex: "ex = [] \<or> exponent_part ex"
    and st: "rest = [] \<or> \<not> continues (hd rest)"
  shows "number_part (buf, ip @ fr @ ex @ rest) = (buf @ ip @ fr @ ex, rest)"
proof -
  have ex': "ex = [] \<or> hd ex \<in> set ''eE''" using exponent_start[OF ex] .
  have stop_ex: "ex @ rest = [] \<or> hd (ex @ rest) \<notin> set (decimalDigits @ ''_'')"
  proof (cases "ex = []")
    case True
    then show ?thesis using st continues_facts(1) by auto
  next
    case False
    then show ?thesis using ex' by (auto simp: scan_consts)
  qed
  have stop_fr: "fr @ ex @ rest = [] \<or> hd (fr @ ex @ rest) \<notin> set (decimalDigits @ ''_'')"
    using fr stop_ex by (cases fr) (auto simp: scan_consts)
  have noper: "ex @ rest = [] \<or> hd (ex @ rest) \<notin> set period"
  proof (cases "ex = []")
    case True
    then show ?thesis using st continues_facts(3) by auto
  next
    case False
    then show ?thesis using ex' by (auto simp: scan_consts)
  qed
  have tail: "(let (p, s11) = accept period (b, fr @ ex @ rest);
            s12 = (if p then accept_loop (decimalDigits @ ''_'') (fst s11) (snd s11) else s11);
            (e, s13) = accept exponent s12
        in if e then
           (let (sg2, s14) = accept sign s13
            in accept_loop (decimalDigits @ ''_'') (fst s14) (snd s14))
         else s13) = (b @ fr @ ex, rest)" for b
  proof (cases fr)
    case Nil
    have "accept period (b, ex @ rest) = (False, (b, ex @ rest))"
      using noper by (cases "ex @ rest") (auto simp: accept_def)
    then show ?thesis using Nil exponent_tail[OF ex st, of b] by simp
  next
    case (Cons c fd)
    then have c: "c = CHR ''.''" and fd: "list_all digit_char fd" using fr by auto
    have a1: "accept period (b, fr @ ex @ rest) = (True, (b @ ''.'', fd @ ex @ rest))"
      using Cons c by (simp add: accept_def period_def)
    have a2: "accept_loop (decimalDigits @ ''_'') (b @ ''.'') (fd @ ex @ rest) = ((b @ ''.'') @ fd, ex @ rest)"
      by (rule accept_loop_stop[OF fd stop_ex])
    show ?thesis using a1 a2 exponent_tail[OF ex st, of "(b @ ''.'') @ fd"] Cons c by simp
  qed
  have loop: "accept_loop (decimalDigits @ ''_'') b (xs @ fr @ ex @ rest) = (b @ xs, fr @ ex @ rest)"
    if "list_all digit_char xs" for b xs
    using accept_loop_stop[OF that stop_fr] .
  have nz: "fr @ ex @ rest = [] \<or> hd (fr @ ex @ rest) \<notin> set ''0''"
    using stop_fr by (auto simp: scan_consts)
  have nx0: "fr @ ex @ rest = [] \<or> hd (fr @ ex @ rest) \<notin> set ''xX''"
  proof (cases "fr = []")
    case False
    then show ?thesis using fr by auto
  next
    case True
    show ?thesis
    proof (cases "ex = []")
      case True
      then show ?thesis using \<open>fr = []\<close> st continues_facts(4) by auto
    next
      case False
      then show ?thesis using \<open>fr = []\<close> ex' by auto
    qed
  qed
  show ?thesis
  proof (cases ip)
    case Nil
    have "accept ''0'' (buf, fr @ ex @ rest) = (False, (buf, fr @ ex @ rest))"
      using nz by (cases "fr @ ex @ rest") (auto simp: accept_def)
    then show ?thesis using Nil loop[of "[]" buf] tail[of buf]
      by (simp add: number_part_def)
  next
    case (Cons d ds)
    then have d: "d \<in> set ''0123456789''" and ds: "list_all digit_char ds"
      using ip by (auto simp: digit_char_def)
    show ?thesis
    proof (cases "d = CHR ''0''")
      case True
      have a0: "accept ''0'' (buf, ip @ fr @ ex @ rest) = (True, (buf @ ''0'', ds @ fr @ ex @ rest))"
        using True Cons by (simp add: accept_def)
      have nx: "ds @ fr @ ex @ rest = [] \<or> hd (ds @ fr @ ex @ rest) \<notin> set ''xX''"
        using ds nx0 by (cases ds) (auto simp: digit_char_def)
      have ax: "accept ''xX'' (buf @ ''0'', ds @ fr @ ex @ rest) = (False, (buf @ ''0'', ds @ fr @ ex @ rest))"
        using nx by (cases "ds @ fr @ ex @ rest") (auto simp: accept_def)
      show ?thesis using a0 ax loop[OF ds, of "buf @ ''0''"] tail[of "buf @ ''0'' @ ds"] True Cons
        by (simp add: number_part_def)
    next
      case False
      have a0: "accept ''0'' (buf, ip @ fr @ ex @ rest) = (False, (buf, ip @ fr @ ex @ rest))"
        using False Cons by (simp add: accept_def)
      show ?thesis using a0 loop[OF ip, of buf] tail[of "buf @ ip"]
        by (simp add: number_part_def)
    qed
  qed
qed

lemma floatToken_number_part:
  "floatToken inp =
     (let s0 = ([], inp);
          (n1, s1) = accept ''nN'' s0;
          (n2, s2) = (if n1 then accept ''aA'' s1 else (False, s1));
          (n3, s3) = (if n2 then accept ''nN'' s2 else (False, s2))
      in if n3 then s3
         else
           let (sg, s4) = accept sign s3;
               (i1, s5) = accept ''iI'' s4;
               (i2, s6) = (if i1 then accept ''nN'' s5 else (False, s5));
               (i3, s7) = (if i2 then accept ''fF'' s6 else (False, s6))
           in if i3 then s7 else number_part s7)"
  unfolding floatToken_def number_part_def by (rule refl)

lemma numeric_string_shape:
  assumes "numeric_string s"
  shows "\<exists>sg ip fr ex. s = sg @ ip @ fr @ ex \<and> (sg = [] \<or> (\<exists>c. sg = [c] \<and> c \<in> set sign)) \<and>
    list_all digit_char ip \<and> (fr = [] \<or> (\<exists>fd. fr = CHR ''.'' # fd \<and> list_all digit_char fd)) \<and>
    (ex = [] \<or> exponent_part ex) \<and>
    ip @ fr \<noteq> [] \<and> (sg = [] \<longrightarrow> hd (ip @ fr) \<notin> set sign)"
proof -
  define body where "body = (case s of [] \<Rightarrow> [] | c # r \<Rightarrow> if c \<in> set sign then r else s)"
  define sg where "sg = (case s of [] \<Rightarrow> [] | c # r \<Rightarrow> if c \<in> set sign then [c] else [])"
  define ip where "ip = takeWhile digit_char body"
  define r1 where "r1 = dropWhile digit_char body"
  define point where "point = (r1 \<noteq> [] \<and> hd r1 = CHR ''.'')"
  define fd where "fd = (if point then takeWhile digit_char (tl r1) else [])"
  define ex where "ex = (if point then dropWhile digit_char (tl r1) else r1)"
  define fr where "fr = (if point then CHR ''.'' # fd else [])"
  have sb: "s = sg @ body"
    by (auto simp: sg_def body_def split: list.splits)
  have b: "body = ip @ r1" by (simp add: ip_def r1_def)
  have r1: "r1 = fr @ ex"
  proof (cases point)
    case True
    then obtain r' where "r1 = CHR ''.'' # r'" unfolding point_def by (cases r1) auto
    then show ?thesis using True by (simp add: fr_def fd_def ex_def)
  next
    case False
    then show ?thesis by (simp add: fr_def ex_def)
  qed
  have s: "s = sg @ ip @ fr @ ex" using sb b r1 by simp
  have sg: "sg = [] \<or> (\<exists>c. sg = [c] \<and> c \<in> set sign)"
    by (auto simp: sg_def split: list.splits)
  have ip: "list_all digit_char ip"
    unfolding ip_def list_all_iff by (auto dest: set_takeWhileD)
  have fdd: "list_all digit_char fd"
    unfolding fd_def list_all_iff by (auto dest: set_takeWhileD)
  have fr: "fr = [] \<or> (\<exists>fd. fr = CHR ''.'' # fd \<and> list_all digit_char fd)"
    using fdd by (auto simp: fr_def)
  have ns: "(ip \<noteq> [] \<or> fd \<noteq> []) \<and> (ex = [] \<or> exponent_part ex)"
    using assms unfolding numeric_string_def Let_def body_def[symmetric] ip_def[symmetric]
      r1_def[symmetric] point_def[symmetric] fd_def[symmetric] ex_def[symmetric] .
  have ne: "ip @ fr \<noteq> []" using ns by (auto simp: fr_def fd_def split: if_splits)
  have hd: "sg = [] \<longrightarrow> hd (ip @ fr) \<notin> set sign"
  proof
    assume e: "sg = []"
    obtain c r where cr: "ip @ fr = c # r" using ne by (meson neq_Nil_conv)
    then have "s = c # r @ ex" using s e by simp
    with e have "c \<notin> set sign" by (auto simp: sg_def split: if_splits)
    with cr show "hd (ip @ fr) \<notin> set sign" by simp
  qed
  show ?thesis using s sg ip fr ns ne hd by (intro exI conjI) auto
qed

lemma exponent_part_no_p:
  assumes "exponent_part ex"
  shows "CHR ''p'' \<notin> set ex"
proof -
  from exponent_part_shape[OF assms] show ?thesis
  proof (elim exE conjE)
    fix e sg2 ed
    assume ex: "ex = e # sg2 @ ed" and e: "e \<in> set ''eE''"
      and sg: "sg2 = [] \<or> (\<exists>c. sg2 = [c] \<and> c \<in> set sign)"
      and ed2: "list_all digit_char ed"
    have "CHR ''p'' \<notin> set ed" using ed2 by (induction ed) (auto simp: digit_char_def)
    moreover have "CHR ''p'' \<notin> set sg2" using sg by (auto simp: sign_def)
    moreover have "CHR ''p'' \<noteq> e" using e by auto
    ultimately show ?thesis using ex by auto
  qed
qed

lemma floatToken_numeric:
  assumes "numeric_string tok"
    and st: "rest = [] \<or> \<not> continues (hd rest)"
  shows "floatToken (tok @ rest) = (tok, rest)"
proof -
  from numeric_string_shape[OF assms(1)] show ?thesis
  proof (elim exE conjE)
    fix sg ip fr ex
    assume s: "tok = sg @ ip @ fr @ ex" and sg: "sg = [] \<or> (\<exists>c. sg = [c] \<and> c \<in> set sign)"
      and ip: "list_all digit_char ip"
      and fr: "fr = [] \<or> (\<exists>fd. fr = CHR ''.'' # fd \<and> list_all digit_char fd)"
      and ex: "ex = [] \<or> exponent_part ex"
      and ne: "ip @ fr \<noteq> []" and hd: "sg = [] \<longrightarrow> hd (ip @ fr) \<notin> set sign"
    obtain b bs where b: "ip @ fr = b # bs" using ne by (meson neq_Nil_conv)
    have bd: "b \<in> set ''.0123456789''"
      using b ip fr by (cases ip) (auto simp: digit_char_def)
    have b': "ip @ fr @ ex @ rest = b # bs @ ex @ rest" using b by (metis append.assoc append_Cons)
    have b'': "ip @ fr @ ex = b # bs @ ex" using b by (metis append.assoc append_Cons)
    have t1: "tok @ rest = sg @ b # bs @ ex @ rest" using s b' by simp
    have t2: "tok = sg @ b # bs @ ex" using s b'' by simp
    have np: "number_part (sg, b # bs @ ex @ rest) = (sg @ b # bs @ ex, rest)"
      using number_part_numeric[OF ip fr ex st, of sg] b' b'' by simp
    have bn: "accept ''nN'' (u, b # X) = (False, (u, b # X))" for u X
      using bd by (auto simp: accept_def)
    have bi: "accept ''iI'' (u, b # X) = (False, (u, b # X))" for u X
      using bd by (auto simp: accept_def)
    show ?thesis
    proof (cases "sg = []")
      case True
      then have "b \<notin> set sign" using hd b by simp
      then have bs: "accept sign (u, b # X) = (False, (u, b # X))" for u X
        by (simp add: accept_def)
      show ?thesis unfolding t1 t2 floatToken_number_part using True np
        by (simp add: bn bi bs)
    next
      case False
      then obtain c where c: "sg = [c]" "c \<in> set sign" using sg by auto
      have cn: "accept ''nN'' (u, c # X) = (False, (u, c # X))" for u X
        using c(2) by (auto simp: accept_def sign_def)
      have cs: "accept sign ([], c # X) = (True, ([c], X))" for X
        using c(2) by (simp add: accept_def)
      show ?thesis unfolding t1 t2 floatToken_number_part using c(1) np
        by (simp add: cn cs bi)
    qed
  qed
qed

lemma numeric_string_chars:
  assumes "numeric_string s"
  shows "s \<noteq> [] \<and> hd s \<in> set ''+-.0123456789'' \<and> CHR ''p'' \<notin> set s"
proof -
  from numeric_string_shape[OF assms] show ?thesis
  proof (elim exE conjE)
    fix sg ip fr ex
    assume s: "s = sg @ ip @ fr @ ex" and sg: "sg = [] \<or> (\<exists>c. sg = [c] \<and> c \<in> set sign)"
      and ip: "list_all digit_char ip"
      and fr: "fr = [] \<or> (\<exists>fd. fr = CHR ''.'' # fd \<and> list_all digit_char fd)"
      and ex: "ex = [] \<or> exponent_part ex"
      and ne: "ip @ fr \<noteq> []"
    have p1: "CHR ''p'' \<notin> set sg" using sg by (auto simp: sign_def)
    have pd: "CHR ''p'' \<notin> set xs" if "list_all digit_char xs" for xs
      using that by (induction xs) (auto simp: digit_char_def)
    have p2: "CHR ''p'' \<notin> set ip" using pd[OF ip] .
    have p3: "CHR ''p'' \<notin> set fr" using fr pd by auto
    have p4: "CHR ''p'' \<notin> set ex" using ex exponent_part_no_p by auto
    have p: "CHR ''p'' \<notin> set s" using s p1 p2 p3 p4 by simp
    obtain b bs where b: "ip @ fr = b # bs" using ne by (meson neq_Nil_conv)
    have bd: "b \<in> set ''+-.0123456789''"
      using b ip fr by (cases ip) (auto simp: digit_char_def)
    have b': "ip @ fr @ ex = b # bs @ ex" using b by (metis append.assoc append_Cons)
    have h: "hd s \<in> set ''+-.0123456789''"
    proof (cases "sg = []")
      case True
      then have "hd s = b" using s b' by simp
      then show ?thesis using bd by simp
    next
      case False
      then obtain c where c: "sg = [c]" "c \<in> set sign" using sg by auto
      then have "hd s = c" using s by simp
      then show ?thesis using c by (auto simp: sign_def)
    qed
    have "s \<noteq> []" using s b' by auto
    then show ?thesis using h p by simp
  qed
qed

lemma indexRune_None: "r \<notin> set s \<Longrightarrow> indexRune s r = None"
  by (induction s) auto

lemma SkipSpace_start:
  assumes "c \<in> set ''+-.0123456789''"
  shows "SkipSpace (c # cs) = Inr (c # cs)"
proof -
  have a: "of_char c < (128::nat)" "(of_char c :: nat) \<noteq> 13" "(of_char c :: nat) \<noteq> 10" "\<not> isSpace (of_char c)"
    using assms by (auto simp: isSpace_def space_def)
  have "DecodeRune (bytes (c # cs)) = (of_char c, 1)" using a by (simp add: bytes_def)
  then show ?thesis using a
    by (subst SkipSpace.simps) (simp del: DecodeRune.simps)
qed

lemma SkipSpace_blank:
  assumes "blank c"
  shows "SkipSpace (c # cs) = SkipSpace cs"
proof -
  have v: "(of_char c :: nat) \<in> set [9, 11, 12, 13, 32]" using assms by (simp add: blank_def)
  have sp: "isSpace 9" "isSpace 11" "isSpace 12" "isSpace 13" "isSpace 32"
    by (simp_all add: isSpace_def space_def)
  have "n < 128 \<and> n \<noteq> 10 \<and> isSpace n" if "n \<in> set [9, 11, 12, 13, 32]" for n :: nat
    using that sp by auto
  from this[OF v] have a: "of_char c < (128::nat)" "(of_char c :: nat) \<noteq> 10" "isSpace (of_char c)"
    by blast+
  have d: "DecodeRune (bytes (c # cs)) = (of_char c, 1)" using a by (simp add: bytes_def)
  show ?thesis using a d
    by (subst SkipSpace.simps) (simp del: DecodeRune.simps)
qed

lemma SkipSpace_dropWhile: "SkipSpace s = SkipSpace (dropWhile blank s)"
  by (induction s) (simp_all add: SkipSpace_blank)

lemma SkipSpace_Nil: "SkipSpace [] = Inr []"
  by (subst SkipSpace.simps) simp

lemma SkipSpace_newline:
  assumes "(of_char c :: nat) = 10"
  shows "SkipSpace (c # cs) = Inl (LibError ''unexpected newline'')"
proof -
  have d: "DecodeRune (bytes (c # cs)) = (10, 1)" using assms by (simp add: bytes_def)
  show ?thesis using d
    by (subst SkipSpace.simps) (simp del: DecodeRune.simps)
qed

lemma SkipSpace_stay:
  assumes "(of_char c :: nat) < 128" and "\<not> blank c" and "(of_char c :: nat) \<noteq> 10"
  shows "SkipSpace (c # cs) = Inr (c # cs)"
proof -
  have "\<not> isSpace n \<and> n \<noteq> 13" if "n < 128" "n \<notin> set [9, 11, 12, 13, 32]" "n \<noteq> 10" for n :: nat
    using that by (auto simp: isSpace_def space_def)
  from this[OF assms(1) _ assms(3)] assms(2)
  have n: "\<not> isSpace (of_char c)" and r: "(of_char c :: nat) \<noteq> 13"
    unfolding blank_def by blast+
  have d: "DecodeRune (bytes (c # cs)) = (of_char c, 1)" using assms(1) by (simp add: bytes_def)
  show ?thesis using n r d assms(3)
    by (subst SkipSpace.simps) (simp del: DecodeRune.simps)
qed

lemma floatToken_nothing:
  assumes "\<not> begins c"
  shows "floatToken (c # r) = ([], c # r)"
proof -
  have a: "c \<notin> set ''nN''" "c \<notin> set sign" "c \<notin> set ''iI''" "c \<notin> set ''0''"
    "c \<notin> set (decimalDigits @ ''_'')" "c \<notin> set period" "c \<notin> set exponent"
    using assms by (simp_all add: begins_def scan_consts)
  have acc: "accept ok ([], c # r) = (False, ([], c # r))" if "c \<notin> set ok" for ok
    using that by (simp add: accept_def)
  have lp: "accept_loop (decimalDigits @ ''_'') [] (c # r) = ([], c # r)"
    using a(5) by simp
  show ?thesis
    unfolding floatToken_def
    by (simp add: acc[OF a(1)] acc[OF a(2)] acc[OF a(3)] acc[OF a(4)] acc[OF a(6)] acc[OF a(7)] lp
        del: accept_loop.simps)
qed

lemma numeric_prefix_Some:
  "numeric_prefix t n = Some tok \<Longrightarrow> numeric_string tok \<and> (\<exists>k. tok = take k t)"
  by (induction n) (auto split: if_splits)

lemma numeric_prefix_split:
  assumes "numeric_prefix t n = Some tok"
  shows "t = tok @ drop (length tok) t"
proof -
  from numeric_prefix_Some[OF assms] obtain k where "tok = take k t" by blast
  then show ?thesis by (cases "k \<le> length t") (simp_all add: min_def)
qed

lemma convertFloat_numeric:
  assumes "numeric_string tok"
  shows "convertFloat lib tok = strconv_ParseFloat lib tok"
  using numeric_string_chars[OF assms] by (simp add: convertFloat_def indexRune_None)

lemma Sscanf_f_reading:
  "case reading_of s of
     Nothing \<Rightarrow> (\<exists>err. Sscanf_f lib s = Inl err)
   | Token tok \<Rightarrow> Sscanf_f lib s = strconv_ParseFloat lib tok
   | Unsettled \<Rightarrow> True"
proof -
  define t where "t = dropWhile blank s"
  have rd: "reading_of s =
      (if t = [] \<or> (of_char (hd t) :: nat) = 10 then Nothing
       else
         (case numeric_prefix t (length t) of
            Some tok \<Rightarrow>
              (case drop (length tok) t of
                 [] \<Rightarrow> Token tok
               | d # _ \<Rightarrow> if continues d then Unsettled else Token tok)
          | None \<Rightarrow>
              if begins (hd t) \<or> 128 \<le> (of_char (hd t) :: nat) then Unsettled else Token []))"
    unfolding reading_of_def t_def Let_def by (rule refl)
  have sk: "SkipSpace s = SkipSpace t" unfolding t_def by (rule SkipSpace_dropWhile)
  show ?thesis
  proof (cases "t = []")
    case True
    have "SkipSpace s = Inr []" unfolding sk True by (rule SkipSpace_Nil)
    then have "Sscanf_f lib s = Inl (LibError ''unexpected EOF'')"
      by (simp add: Sscanf_f_def)
    moreover have "reading_of s = Nothing" unfolding rd using True by simp
    ultimately show ?thesis by simp
  next
    case False
    then obtain c r where t: "t = c # r" by (meson neq_Nil_conv)
    have "\<not> blank (hd (dropWhile blank s))"
      by (rule hd_dropWhile) (use False t_def in simp)
    then have nb: "\<not> blank c" using t t_def by simp
    show ?thesis
    proof (cases "(of_char c :: nat) = 10")
      case True
      have "SkipSpace s = Inl (LibError ''unexpected newline'')"
        unfolding sk t by (rule SkipSpace_newline[OF True])
      then have "Sscanf_f lib s = Inl (LibError ''unexpected newline'')"
        by (simp add: Sscanf_f_def)
      moreover have "reading_of s = Nothing" unfolding rd using True t by simp
      ultimately show ?thesis by simp
    next
      case nl: False
      have g: "\<not> (t = [] \<or> (of_char (hd t) :: nat) = 10)" using nl t by simp
      show ?thesis
      proof (cases "numeric_prefix t (length t)")
        case None
        show ?thesis
        proof (cases "begins c \<or> 128 \<le> (of_char c :: nat)")
          case True
          then have "begins (hd t) \<or> 128 \<le> (of_char (hd t) :: nat)" using t by simp
          then have "reading_of s = Unsettled" unfolding rd using g None by simp
          then show ?thesis by simp
        next
          case False
          then have b: "\<not> begins c" and a: "(of_char c :: nat) < 128" by auto
          have "\<not> (begins (hd t) \<or> 128 \<le> (of_char (hd t) :: nat))" using False t by simp
          then have r0: "reading_of s = Token []" unfolding rd using g None by simp
          have "SkipSpace s = Inr (c # r)" unfolding sk t by (rule SkipSpace_stay[OF a nb nl])
          then have "Sscanf_f lib s = strconv_ParseFloat lib []"
            by (simp add: Sscanf_f_def floatToken_nothing[OF b] convertFloat_def)
          then show ?thesis using r0 by simp
        qed
      next
        case (Some tok)
        define rest where "rest = drop (length tok) t"
        have tr: "t = tok @ rest" unfolding rest_def by (rule numeric_prefix_split[OF Some])
        have nt: "numeric_string tok" using numeric_prefix_Some[OF Some] by simp
        have r1: "reading_of s =
            (case rest of [] \<Rightarrow> Token tok | d # _ \<Rightarrow> if continues d then Unsettled else Token tok)"
          unfolding rd rest_def using g Some by simp
        show ?thesis
        proof (cases "rest = [] \<or> \<not> continues (hd rest)")
          case False
          then obtain d ds where "rest = d # ds" "continues d" by (cases rest) auto
          then have "reading_of s = Unsettled" unfolding r1 by simp
          then show ?thesis by simp
        next
          case True
          have r2: "reading_of s = Token tok"
            unfolding r1 using True by (cases rest) simp_all
          have tk: "tok \<noteq> []" "hd tok \<in> set ''+-.0123456789''"
            using numeric_string_chars[OF nt] by simp_all
          then have "hd t = hd tok" using tr by simp
          then have c: "c \<in> set ''+-.0123456789''" using tk(2) t by simp
          have s1: "SkipSpace s = Inr t" unfolding sk unfolding t by (rule SkipSpace_start[OF c])
          have ft: "floatToken t = (tok, rest)"
            unfolding tr by (rule floatToken_numeric[OF nt True])
          have "Sscanf_f lib s = strconv_ParseFloat lib tok"
            unfolding Sscanf_f_def s1 using False ft convertFloat_numeric[OF nt]
            by simp
          then show ?thesis using r2 by simp
        qed
      qed
    qed
  qed
qed

lemma reading_of_numeric:
  assumes "numeric_string s"
  shows "reading_of s = Token s"
proof -
  have ne: "s \<noteq> []" and h: "hd s \<in> set ''+-.0123456789''"
    using numeric_string_chars[OF assms] by simp_all
  obtain c cs where s: "s = c # cs" using ne by (meson neq_Nil_conv)
  have c: "c \<in> set ''+-.0123456789''" using h s by simp
  have nb: "\<not> blank c" and nl: "(of_char c :: nat) \<noteq> 10"
    using c by (auto simp: blank_def)
  have d: "dropWhile blank s = s" using s nb by simp
  have "take (Suc (length cs)) s = s" using s by simp
  then have p: "numeric_prefix s (length s) = Some s"
    using assms s by (simp del: take_Suc_Cons)
  have g: "\<not> (s = [] \<or> (of_char (hd s) :: nat) = 10)" using s nl by simp
  show ?thesis
    unfolding reading_of_def d Let_def using g p by simp
qed

section \<open>Facts about the store and the connection\<close>

lemma parse_sensor_columns:
  "parse_coldefs
     [[''time'', ''TIMESTAMPTZ'', ''NOT'', ''NULL''],
      [''temperature'', ''DOUBLE'', ''PRECISION''],
      [''humidity'', ''DOUBLE'', ''PRECISION''],
      [''light'', ''DOUBLE'', ''PRECISION''],
      [''device_id'', ''TEXT'', ''NOT'', ''NULL'']] = Some sensor_columns"
  by (simp add: parse_coldef_def plain_ident_def lower_letter_def digit_char_def sensor_columns_def)

lemma parse_columns_A:
  "parse_coldefs
     [[''time'', ''TIMESTAMPTZ'', ''NOT'', ''NULL''],
      [''temperature'', ''DOUBLE'', ''PRECISION''],
      [''humidity'', ''DOUBLE'', ''PRECISION''],
      [''light'', ''DOUBLE'', ''PRECISION'', ''device_id'', ''TEXT'', ''NOT'', ''NULL''],
      []] = None"
  by (simp add: parse_coldef_def plain_ident_def lower_letter_def digit_char_def)

lemma pg_exec_exists:
  "pg_exec s SelectTableExists [DText t] = Inr (Row (t \<in> dom (relations s)), s)"
  by (simp add: pg_exec_def)

lemma pg_exec_create:
  assumes "plain_ident t" and "relations s t = None"
  shows "pg_exec s (create_stmt t) [] =
           Inr (Tag 0, s\<lparr>relations := (relations s)(t \<mapsto> fresh_relation)\<rparr>)"
  using assms
  by (simp add: pg_exec_def create_stmt_def parse_sensor_columns fresh_relation_def dom_def
      del: parse_coldefs.simps) (simp add: sensor_columns_def)

lemma pg_exec_create_A:
  "pg_exec s (create_stmt_A t) [] = Inl Syntax_error"
  by (simp add: pg_exec_def create_stmt_A_def parse_columns_A del: parse_coldefs.simps)

lemma pg_exec_hypertable_fresh:
  assumes "timescaledb s" and "relations s t = Some fresh_relation"
  shows "pg_exec s (SelectCreateHypertable t ''time'' b) [] =
           Inr (Row True, s\<lparr>relations := (relations s)(t \<mapsto> fresh_relation\<lparr>timeColumn := Some ''time''\<rparr>)\<rparr>)"
  using assms
  by (simp add: pg_exec_def fresh_relation_def sensor_columns_def)

lemma pg_exec_hypertable_again:
  assumes "timescaledb s" and "relations s t = Some rel" and "timeColumn rel \<noteq> None"
  shows "pg_exec s (SelectCreateHypertable t c True) [] = Inr (Row False, s)"
    and "pg_exec s (SelectCreateHypertable t c False) [] = Inl Hypertable_exists"
  using assms by (auto simp: pg_exec_def)

lemma request_healthy:
  assumes "faults c = []"
  shows "request c q a =
           (case pg_exec (server c) q a of
              Inl st \<Rightarrow> (Inl (PgError st), c\<lparr>sent := sent c @ [(q, a)]\<rparr>)
            | Inr (r, s') \<Rightarrow> (Inr r, c\<lparr>sent := sent c @ [(q, a)], server := s'\<rparr>))"
  using assms by (simp add: request_def Let_def split: sum.splits prod.splits)

lemma InitializeTable_present:
  assumes "faults (conn d) = []"
    and "TableName (Timescale (TimescaleDB.config d)) \<in> dom (relations (server (conn d)))"
  shows "InitializeTable d =
           ([Printf ''Table %s already exists'' [LStr (TableName (Timescale (TimescaleDB.config d)))]],
            None,
            d\<lparr>conn := (conn d)\<lparr>sent := sent (conn d) @
                 [(SelectTableExists, [DText (TableName (Timescale (TimescaleDB.config d)))])]\<rparr>\<rparr>)"
  using assms
  by (simp add: InitializeTable_def QueryRow_Scan_def request_healthy pg_exec_exists Let_def)

lemma InitializeTable_A_present:
  assumes "faults (conn d) = []"
    and "TableName (Timescale (TimescaleDB.config d)) \<in> dom (relations (server (conn d)))"
  shows "InitializeTable_A d =
           ([Printf ''Table %s already exists'' [LStr (TableName (Timescale (TimescaleDB.config d)))]],
            None,
            d\<lparr>conn := (conn d)\<lparr>sent := sent (conn d) @
                 [(SelectTableExists, [DText (TableName (Timescale (TimescaleDB.config d)))])]\<rparr>\<rparr>)"
  using assms
  by (simp add: InitializeTable_A_def QueryRow_Scan_def request_healthy pg_exec_exists Let_def)

lemma InitializeTable_absent:
  assumes f: "faults (conn d) = []"
    and ext: "timescaledb (server (conn d))"
    and id: "plain_ident (TableName (Timescale (TimescaleDB.config d)))"
    and abs: "relations (server (conn d)) (TableName (Timescale (TimescaleDB.config d))) = None"
  shows "InitializeTable d =
           ([Printf ''Creating table %s...'' [LStr (TableName (Timescale (TimescaleDB.config d)))],
             Printf ''Table %s created and converted to hypertable''
               [LStr (TableName (Timescale (TimescaleDB.config d)))]],
            None,
            d\<lparr>conn := (conn d)\<lparr>
                 sent := sent (conn d) @
                   [(SelectTableExists, [DText (TableName (Timescale (TimescaleDB.config d)))]),
                    (create_stmt (TableName (Timescale (TimescaleDB.config d))), []),
                    (SelectCreateHypertable (TableName (Timescale (TimescaleDB.config d))) ''time'' True, [])],
                 server := (server (conn d))\<lparr>relations :=
                   (relations (server (conn d)))(TableName (Timescale (TimescaleDB.config d)) \<mapsto>
                      fresh_relation\<lparr>timeColumn := Some ''time''\<rparr>)\<rparr>\<rparr>\<rparr>)"
proof -
  let ?t = "TableName (Timescale (TimescaleDB.config d))"
  have nd: "?t \<notin> dom (relations (server (conn d)))" using abs by (simp add: dom_def)
  show ?thesis
    using f ext id abs nd
    by (simp add: InitializeTable_def QueryRow_Scan_def Exec_def request_healthy pg_exec_exists
        create_stmt_def[symmetric] pg_exec_create pg_exec_hypertable_fresh Let_def)
qed

lemma InitializeTable_A_absent:
  assumes f: "faults (conn d) = []"
    and abs: "relations (server (conn d)) (TableName (Timescale (TimescaleDB.config d))) = None"
  shows "InitializeTable_A d =
           ([Printf ''Creating table %s...'' [LStr (TableName (Timescale (TimescaleDB.config d)))]],
            Some (Errorf ''failed to create table'' (PgError Syntax_error)),
            d\<lparr>conn := (conn d)\<lparr>
                 sent := sent (conn d) @
                   [(SelectTableExists, [DText (TableName (Timescale (TimescaleDB.config d)))]),
                    (create_stmt_A (TableName (Timescale (TimescaleDB.config d))), [])]\<rparr>\<rparr>)"
proof -
  let ?t = "TableName (Timescale (TimescaleDB.config d))"
  have nd: "?t \<notin> dom (relations (server (conn d)))" using abs by (simp add: dom_def)
  show ?thesis
    using f abs nd
    by (simp add: InitializeTable_A_def QueryRow_Scan_def Exec_def request_healthy pg_exec_exists
        create_stmt_A_def[symmetric] pg_exec_create_A Let_def)
qed

lemma InsertSensorData_result:
  "InsertSensorData d r =
     (case request (conn d) (fst (insert_of (TableName (Timescale (TimescaleDB.config d))) r))
             (snd (insert_of (TableName (Timescale (TimescaleDB.config d))) r)) of
        (Inl e, c1) \<Rightarrow>
          ([line1_of (TableName (Timescale (TimescaleDB.config d))) r],
           Some (Errorf ''failed to insert sensor data'' e), d\<lparr>conn := c1\<rparr>)
      | (Inr rep, c1) \<Rightarrow>
          ([line1_of (TableName (Timescale (TimescaleDB.config d))) r,
            Printf ''DB INSERT affected rows: %d'' [LInt (int (rows_of rep))]],
           None, d\<lparr>conn := c1\<rparr>))"
  by (simp add: InsertSensorData_def Exec_def insert_of_def line1_of_def rows_of_def Let_def
      split: prod.splits sum.splits reply.splits)

lemma InsertSensorData_A_result:
  "InsertSensorData_A d r =
     ([], fst (snd (InsertSensorData d r)), snd (snd (InsertSensorData d r)))"
  by (simp add: InsertSensorData_def InsertSensorData_A_def Let_def
      split: prod.splits sum.splits)

lemma request_failed_server:
  "fst (request c q a) = Inl e \<Longrightarrow> server (snd (request c q a)) = server c"
  by (auto simp: request_def Let_def split: sum.splits prod.splits if_splits)

lemma pg_insert_sensor:
  assumes "columns rel = sensor_columns"
  shows "pg_insert rel [''time'', ''temperature'', ''humidity'', ''light'', ''device_id'']
           [DTime ts, DFloat x, DFloat y, DFloat z, DText dev] =
         (if skipInserts rel then Inr (0, rel)
          else Inr (1, rel\<lparr>tuples := tuples rel @ [[DTime ts, DFloat x, DFloat y, DFloat z, DText dev]]\<rparr>))"
  using assms by (simp add: pg_insert_def sensor_columns_def fits_def Let_def)

lemma pg_exec_insert_sensor:
  assumes "relations s t = Some rel" and "columns rel = sensor_columns"
  shows "pg_exec s (fst (insert_of t r)) (snd (insert_of t r)) =
         (if skipInserts rel then Inr (Tag 0, s\<lparr>relations := (relations s)(t \<mapsto> rel)\<rparr>)
          else Inr (Tag 1, s\<lparr>relations := (relations s)(t \<mapsto>
                 rel\<lparr>tuples := tuples rel @ [snd (insert_of t r)]\<rparr>)\<rparr>))"
  using assms by (simp add: pg_exec_def insert_of_def pg_insert_sensor)

lemma InsertSensorData_healthy:
  assumes f: "faults (conn d) = []"
    and rel: "relations (server (conn d)) (TableName (Timescale (TimescaleDB.config d))) = Some rel"
    and cols: "columns rel = sensor_columns"
  shows "InsertSensorData d r =
           ([line1_of (TableName (Timescale (TimescaleDB.config d))) r,
             Printf ''DB INSERT affected rows: %d'' [LInt (if skipInserts rel then 0 else 1)]],
            None,
            d\<lparr>conn := (conn d)\<lparr>
               sent := sent (conn d) @ [insert_of (TableName (Timescale (TimescaleDB.config d))) r],
               server := (server (conn d))\<lparr>relations :=
                 (relations (server (conn d)))(TableName (Timescale (TimescaleDB.config d)) \<mapsto>
                    (if skipInserts rel then rel
                     else rel\<lparr>tuples := tuples rel @
                            [snd (insert_of (TableName (Timescale (TimescaleDB.config d))) r)]\<rparr>))\<rparr>\<rparr>\<rparr>)"
proof -
  let ?t = "TableName (Timescale (TimescaleDB.config d))"
  let ?q = "fst (insert_of ?t r)"
  let ?a = "snd (insert_of ?t r)"
  have rt: "request (conn d) ?q ?a =
      (Inr (Tag (if skipInserts rel then 0 else 1)),
       (conn d)\<lparr>sent := sent (conn d) @ [(?q, ?a)],
         server := (server (conn d))\<lparr>relations := (relations (server (conn d)))(?t \<mapsto>
            (if skipInserts rel then rel else rel\<lparr>tuples := tuples rel @ [?a]\<rparr>))\<rparr>\<rparr>)"
    unfolding request_healthy[OF f] pg_exec_insert_sensor[OF rel cols] by simp
  show ?thesis
    unfolding InsertSensorData_result rt by (simp add: rows_of_def)
qed

section \<open>Facts about the handler\<close>

lemma snd_Exec: "snd (Exec c q args) = snd (request c q args)"
  by (simp add: Exec_def split: prod.splits sum.splits reply.splits)

lemma sent_request: "sent (snd (request c q args)) = sent c @ [(q, args)]"
  by (simp add: request_def Let_def split: sum.splits prod.splits)

lemma sent_Exec: "sent (snd (Exec c q args)) = sent c @ [(q, args)]"
  by (simp add: snd_Exec sent_request)

lemma InsertSensorData_sent:
  "sent (conn (snd (snd (InsertSensorData d r)))) =
     sent (conn d) @ [insert_of (TableName (Timescale (TimescaleDB.config d))) r]"
proof -
  let ?q = "InsertInto (TableName (Timescale (TimescaleDB.config d)))
              [''time'', ''temperature'', ''humidity'', ''light'', ''device_id''] [1, 2, 3, 4, 5]"
  let ?a = "[DTime (Timestamp r), DFloat (Temperature r), DFloat (Humidity r), DFloat (Light r),
             DText (Device_ID r)]"
  have "conn (snd (snd (InsertSensorData d r))) = snd (Exec (conn d) ?q ?a)"
    by (simp add: InsertSensorData_def Let_def split: prod.splits sum.splits)
  then show ?thesis by (simp add: sent_Exec insert_of_def)
qed

lemma InsertSensorData_config:
  "TimescaleDB.config (snd (snd (InsertSensorData d r))) = TimescaleDB.config d"
  by (simp add: InsertSensorData_def Let_def split: prod.splits sum.splits)

lemma processMessage_stores:
  assumes "json_Unmarshal lib payload = Inr rawData"
    and "rawData ''device_id'' = Some (AnyString dev)"
  shows "\<exists>lg. processMessage lib clk c payload =
           (lg, c\<lparr>db := snd (snd (InsertSensorData (db c) (built lib clk rawData dev)))\<rparr>)"
  using assms
  by (auto simp: processMessage_def built_def timestamp_of_def Let_def
      split: option.splits any.splits sum.splits prod.splits)

lemma processMessage_sent:
  assumes "json_Unmarshal lib payload = Inr rawData"
    and "rawData ''device_id'' = Some (AnyString dev)"
  shows "sent_by c (snd (processMessage lib clk c payload)) =
           [insert_of (table_of c) (built lib clk rawData dev)]"
proof -
  from processMessage_stores[OF assms, of clk c] obtain lg where
    "processMessage lib clk c payload =
       (lg, c\<lparr>db := snd (snd (InsertSensorData (db c) (built lib clk rawData dev)))\<rparr>)" ..
  then show ?thesis
    by (simp add: sent_by_def InsertSensorData_sent table_of_def)
qed

lemma processMessage_malformed:
  assumes "json_Unmarshal lib payload = Inl err"
  shows "processMessage lib clk c payload =
           ([Printf ''Error unmarshaling message: %v'' [LErr err]], c)"
  using assms by (simp add: processMessage_def)

lemma processMessage_missing:
  assumes "json_Unmarshal lib payload = Inr rawData"
    and "\<forall>d. rawData ''device_id'' \<noteq> Some (AnyString d)"
  shows "\<exists>lg. processMessage lib clk c payload =
           (lg @ [Println ''Error: device_id is missing or not a string''], c)"
  using assms
  by (auto simp: processMessage_def Let_def split: option.splits any.splits sum.splits prod.splits)

lemma getFloat64Value_coerced:
  "coerced lib (m k) (fst (getFloat64Value lib m k))"
proof (cases "m k")
  case None
  then show ?thesis by (simp add: coerced_def getFloat64Value_def)
next
  case (Some val)
  show ?thesis
  proof (cases "\<exists>s. val = AnyString s")
    case False
    then show ?thesis using Some
      by (cases val) (simp_all add: coerced_def getFloat64Value_def)
  next
    case True
    then obtain s where s: "val = AnyString s" by blast
    have x: "fst (getFloat64Value lib m k) = scanned lib s"
      using Some s by (simp add: getFloat64Value_def parseFloat_def scanned_def split: sum.splits)
    have "case reading_of s of
            Nothing \<Rightarrow> scanned lib s = 0
          | Token tok \<Rightarrow> scanned lib s = parsed lib tok
          | Unsettled \<Rightarrow> True"
      using Sscanf_f_reading[where s = s and lib = lib]
      by (cases "reading_of s") (auto simp: scanned_def parsed_def)
    then show ?thesis using Some s x by (simp add: coerced_def)
  qed
qed

lemma coerced_token:
  "coerced lib (Some (AnyString s)) x \<Longrightarrow> reading_of s = Token tok \<Longrightarrow> x = parsed lib tok"
  by (auto simp: coerced_def)

lemma coerced_nothing:
  "coerced lib (Some (AnyString s)) x \<Longrightarrow> reading_of s = Nothing \<Longrightarrow> x = 0"
  by (auto simp: coerced_def)

lemma sent_by_same: "sent_by c c = []"
  by (simp add: sent_by_def)

lemma processMessage_frame:
  "client (snd (processMessage lib clk c payload)) = client c \<and>
   stopChan (snd (processMessage lib clk c payload)) = stopChan c \<and>
   Client.config (snd (processMessage lib clk c payload)) = Client.config c"
  by (auto simp: processMessage_def Let_def
      split: option.splits any.splits sum.splits prod.splits)

lemma processMessage_outcome:
  assumes "json_Unmarshal lib payload = Inr rawData"
    and "rawData ''device_id'' = Some (AnyString dev)"
  shows "case fst (request (conn (db c)) (fst (insert_of (table_of c) (built lib clk rawData dev)))
                  (snd (insert_of (table_of c) (built lib clk rawData dev)))) of
           Inl err \<Rightarrow>
             (\<exists>lg. fst (processMessage lib clk c payload) =
                lg @ [Printf ''Error inserting sensor data: %v''
                        [LErr (Errorf ''failed to insert sensor data'' err)]]) \<and>
             server (conn (db (snd (processMessage lib clk c payload)))) = server (conn (db c))
         | Inr rep \<Rightarrow>
             (\<exists>lg. fst (processMessage lib clk c payload) =
                lg @ [Printf ''Successfully processed and stored sensor data: time=%v, temp=%.2f, humidity=%.2f, light=%.2f''
                        [LTime (Timestamp (built lib clk rawData dev)),
                         LFloat (Temperature (built lib clk rawData dev)),
                         LFloat (Humidity (built lib clk rawData dev)),
                         LFloat (Light (built lib clk rawData dev))]])"
proof -
  let ?r = "built lib clk rawData dev"
  let ?rt = "request (conn (db c)) (fst (insert_of (table_of c) ?r)) (snd (insert_of (table_of c) ?r))"
  obtain res c1 where rt: "?rt = (res, c1)" by (cases ?rt)
  have pm: "processMessage lib clk c payload =
      (case InsertSensorData (db c) ?r of
         (log2, Some err, d) \<Rightarrow>
           ((case rawData ''timestamp'' of
               Some (AnyString tsStr) \<Rightarrow>
                 (case time_Parse lib RFC3339 tsStr of
                    Inl e \<Rightarrow> [Printf ''Error parsing timestamp: %v'' [LErr e]]
                  | Inr t \<Rightarrow> [])
             | _ \<Rightarrow> []) @ log2 @ [Printf ''Error inserting sensor data: %v'' [LErr err]],
            c\<lparr>db := d\<rparr>)
       | (log2, None, d) \<Rightarrow>
           ((case rawData ''timestamp'' of
               Some (AnyString tsStr) \<Rightarrow>
                 (case time_Parse lib RFC3339 tsStr of
                    Inl e \<Rightarrow> [Printf ''Error parsing timestamp: %v'' [LErr e]]
                  | Inr t \<Rightarrow> [])
             | _ \<Rightarrow> []) @ log2 @
            [Printf ''Successfully processed and stored sensor data: time=%v, temp=%.2f, humidity=%.2f, light=%.2f''
               [LTime (Timestamp ?r), LFloat (Temperature ?r), LFloat (Humidity ?r), LFloat (Light ?r)]],
            c\<lparr>db := d\<rparr>))"
    using assms
    by (auto simp: processMessage_def built_def timestamp_of_def Let_def
        split: option.splits any.splits sum.splits prod.splits)
  show ?thesis
  proof (cases res)
    case (Inl err)
    have "server c1 = server (conn (db c))"
      using request_failed_server[of "conn (db c)" _ _ err] rt Inl by (metis fst_conv snd_conv)
    then show ?thesis using rt Inl
      by (simp add: pm InsertSensorData_result table_of_def)
  next
    case (Inr rep)
    then show ?thesis using rt
      by (simp add: pm InsertSensorData_result table_of_def)
  qed
qed

lemma handler_processMessage:
  "handler lib clk c topic payload =
     (Printf ''Received message on topic %s: %s'' [LStr topic, LStr payload] #
        fst (processMessage lib clk c payload),
      snd (processMessage lib clk c payload))"
  by (simp add: handler_def split: prod.splits)

lemma request_fault:
  "faults c = True # fs \<Longrightarrow> fst (request c q a) = Inl (PgError Connection_failure)"
  by (simp add: request_def Let_def)

section \<open>The claims\<close>

subsection \<open>Decoding\<close>

text \<open>
  C1 as stated does not hold. In the message
  \<open>{"temperature":"18.5C","device_id":"sensor-3"}\<close> the temperature is a string that is not
  a numeric string, and \<open>strconv.ParseFloat\<close> rejects it; the record stored nevertheless
  carries 18.5 for it and not the default 0.0. The two fields that are absent carry 0.0.
\<close>

theorem trailing_text_ignored:
  "\<not> numeric_string ''18.5C'' \<and>
   strconv_ParseFloat example_lib ''18.5C'' = Inl (LibError ''invalid syntax'') \<and>
   sent_by example_client
     (snd (processMessage example_lib example_clock example_client
             ''{\"temperature\":\"18.5C\",\"device_id\":\"sensor-3\"}'')) =
     [insert_of ''sensor_data''
        \<lparr>Timestamp = time_Now example_clock, Temperature = 37 / 2, Humidity = 0, Light = 0,
         Device_ID = ''sensor-3''\<rparr>]"
proof -
  let ?p = "''{\"temperature\":\"18.5C\",\"device_id\":\"sensor-3\"}''"
  let ?m = "[''temperature'' \<mapsto> AnyString ''18.5C'', ''device_id'' \<mapsto> AnyString ''sensor-3'']
              :: string \<rightharpoonup> rat any"
  have j: "json_Unmarshal example_lib ?p = Inr ?m"
    by (simp add: example_lib_def example_json_def)
  have d: "?m ''device_id'' = Some (AnyString ''sensor-3'')" by simp
  have t: "table_of example_client = ''sensor_data''"
    by (simp add: table_of_def example_client_def NewClient_def ready_store_def GetDefaultConfig_def)
  have n: "\<not> numeric_string ''18.5C''"
    by (simp add: numeric_string_def exponent_part_def digit_char_def sign_def)
  have e: "strconv_ParseFloat example_lib ''18.5C'' = Inl (LibError ''invalid syntax'')"
    by (simp add: example_lib_def example_float_def)
  have rd: "reading_of ''18.5C'' = Token ''18.5''"
    by code_simp
  have sc: "Sscanf_f example_lib ''18.5C'' = Inr (37 / 2)"
    using Sscanf_f_reading[where s = "''18.5C''" and lib = example_lib] unfolding rd
    by (simp add: example_lib_def example_float_def)
  have b: "built example_lib example_clock ?m ''sensor-3'' =
      \<lparr>Timestamp = time_Now example_clock, Temperature = 37 / 2, Humidity = 0, Light = 0,
       Device_ID = ''sensor-3''\<rparr>"
    by (simp add: built_def timestamp_of_def getFloat64Value_def parseFloat_def sc)
  have s: "sent_by example_client
     (snd (processMessage example_lib example_clock example_client ?p)) =
     [insert_of ''sensor_data''
        \<lparr>Timestamp = time_Now example_clock, Temperature = 37 / 2, Humidity = 0, Light = 0,
         Device_ID = ''sensor-3''\<rparr>]"
    using processMessage_sent[OF j d, of example_client example_clock] unfolding t b .
  show ?thesis by (intro conjI n e s)
qed

text \<open>
  C1, as amended. For every message whose body parses to a key/value structure and carries a
  string \<open>device_id\<close>, the handler stores exactly one record, and each of its fields
  temperature, humidity and light, independently of the others, holds the value the rule
  \<open>coerced\<close> gives the message's entry: the float itself; the converted integer; zero for an
  absent entry and for one of any other type; and for a string what \<open>fmt.Sscanf\<close> scans
  from it with \<open>%f\<close>, zero when the scan fails. White space at the start of a string is
  skipped and what follows its number is ignored: when the longest numeric prefix after
  the white space is followed by no character that continues a number, the field is what
  \<open>strconv.ParseFloat\<close> makes of that prefix, so a numeric string is worth its value and
  so are \<open>" 18.5 %"\<close> and \<open>"18.5C"\<close>; an empty or blank string is worth zero; a string
  that begins with no character of a number is worth what \<open>strconv.ParseFloat\<close> makes of
  the empty text, which it rejects in Go. For the strings left (such as \<open>"24.5eabc"\<close>,
  where the scan takes \<open>24.5e\<close>) the scan alone decides. No hypothesis mentions the
  numeric fields: they never decide whether a record is produced.
\<close>

theorem numeric_fields_coerced:
  assumes "json_Unmarshal lib payload = Inr rawData"
    and "rawData ''device_id'' = Some (AnyString dev)"
  shows "\<exists>r. sent_by c (snd (processMessage lib clk c payload)) = [insert_of (table_of c) r] \<and>
             coerced lib (rawData ''temperature'') (Temperature r) \<and>
             coerced lib (rawData ''humidity'') (Humidity r) \<and>
             coerced lib (rawData ''light'') (Light r)"
proof -
  let ?r = "built lib clk rawData dev"
  have "sent_by c (snd (processMessage lib clk c payload)) = [insert_of (table_of c) ?r]"
    using processMessage_sent[OF assms] .
  moreover have "coerced lib (rawData ''temperature'') (Temperature ?r)"
    by (simp add: built_def getFloat64Value_coerced)
  moreover have "coerced lib (rawData ''humidity'') (Humidity ?r)"
    by (simp add: built_def getFloat64Value_coerced)
  moreover have "coerced lib (rawData ''light'') (Light ?r)"
    by (simp add: built_def getFloat64Value_coerced)
  ultimately show ?thesis by blast
qed

text \<open>Two instances. In the first, temperature is the numeric string \<open>"18.5"\<close>, humidity is
  absent and light is a boolean. In the second, temperature is \<open>" 18.5 %"\<close>, a number
  between a blank and further text, humidity is \<open>"abc"\<close> and light is the empty string.\<close>

theorem numeric_fields_coerced_witness:
  "json_Unmarshal example_lib ''{\"temperature\":\"18.5\",\"light\":true,\"device_id\":\"sensor-2\"}'' =
     Inr [''temperature'' \<mapsto> AnyString ''18.5'', ''light'' \<mapsto> AnyBool True,
          ''device_id'' \<mapsto> AnyString ''sensor-2''] \<and>
   (\<exists>r. sent_by example_client
          (snd (processMessage example_lib example_clock example_client
                  ''{\"temperature\":\"18.5\",\"light\":true,\"device_id\":\"sensor-2\"}'')) =
          [insert_of ''sensor_data'' r] \<and>
        Temperature r = 37 / 2 \<and> Humidity r = 0 \<and> Light r = 0) \<and>
   json_Unmarshal example_lib
     ''{\"temperature\":\" 18.5 %\",\"humidity\":\"abc\",\"light\":\"\",\"device_id\":\"sensor-2\"}'' =
     Inr [''temperature'' \<mapsto> AnyString '' 18.5 %'', ''humidity'' \<mapsto> AnyString ''abc'',
          ''light'' \<mapsto> AnyString '''', ''device_id'' \<mapsto> AnyString ''sensor-2''] \<and>
   (\<exists>r. sent_by example_client
          (snd (processMessage example_lib example_clock example_client
                  ''{\"temperature\":\" 18.5 %\",\"humidity\":\"abc\",\"light\":\"\",\"device_id\":\"sensor-2\"}'')) =
          [insert_of ''sensor_data'' r] \<and>
        Temperature r = 37 / 2 \<and> Humidity r = 0 \<and> Light r = 0)"
proof -
  let ?p = "''{\"temperature\":\"18.5\",\"light\":true,\"device_id\":\"sensor-2\"}''"
  let ?m = "[''temperature'' \<mapsto> AnyString ''18.5'', ''light'' \<mapsto> AnyBool True,
             ''device_id'' \<mapsto> AnyString ''sensor-2''] :: string \<rightharpoonup> rat any"
  let ?q = "''{\"temperature\":\" 18.5 %\",\"humidity\":\"abc\",\"light\":\"\",\"device_id\":\"sensor-2\"}''"
  let ?n = "[''temperature'' \<mapsto> AnyString '' 18.5 %'', ''humidity'' \<mapsto> AnyString ''abc'',
             ''light'' \<mapsto> AnyString '''', ''device_id'' \<mapsto> AnyString ''sensor-2'']
              :: string \<rightharpoonup> rat any"
  have t: "table_of example_client = ''sensor_data''"
    by (simp add: table_of_def example_client_def NewClient_def ready_store_def GetDefaultConfig_def)
  have v: "parsed example_lib ''18.5'' = 37 / 2" "parsed example_lib [] = 0"
    by (simp_all add: parsed_def example_lib_def example_float_def)
  have j: "json_Unmarshal example_lib ?p = Inr ?m"
    by (simp add: example_lib_def example_json_def)
  have d: "?m ''device_id'' = Some (AnyString ''sensor-2'')" by simp
  have mt: "?m ''temperature'' = Some (AnyString ''18.5'')"
    and mh: "?m ''humidity'' = None" and ml: "?m ''light'' = Some (AnyBool True)"
    by simp_all
  have r1: "reading_of ''18.5'' = Token ''18.5''"
    by (rule reading_of_numeric) (simp add: numeric_string_def digit_char_def sign_def)
  from numeric_fields_coerced[OF j d, where c = example_client and clk = example_clock]
  obtain r where r: "sent_by example_client (snd (processMessage example_lib example_clock example_client ?p)) =
        [insert_of (table_of example_client) r]"
      "coerced example_lib (?m ''temperature'') (Temperature r)"
      "coerced example_lib (?m ''humidity'') (Humidity r)"
      "coerced example_lib (?m ''light'') (Light r)"
    by blast
  have "Temperature r = 37 / 2"
    using coerced_token[OF r(2)[unfolded mt] r1] v by simp
  moreover have "Humidity r = 0" using r(3) unfolding mh by (simp add: coerced_def)
  moreover have "Light r = 0" using r(4) unfolding ml by (simp add: coerced_def)
  ultimately have inst1: "\<exists>r. sent_by example_client
        (snd (processMessage example_lib example_clock example_client ?p)) =
        [insert_of ''sensor_data'' r] \<and>
      Temperature r = 37 / 2 \<and> Humidity r = 0 \<and> Light r = 0"
    using r(1) t by auto
  have k: "json_Unmarshal example_lib ?q = Inr ?n"
    by (simp add: example_lib_def example_json_def)
  have e: "?n ''device_id'' = Some (AnyString ''sensor-2'')" by simp
  have nt: "?n ''temperature'' = Some (AnyString '' 18.5 %'')"
    and nh: "?n ''humidity'' = Some (AnyString ''abc'')"
    and nl: "?n ''light'' = Some (AnyString '''')"
    by simp_all
  have r2: "reading_of '' 18.5 %'' = Token ''18.5''" by code_simp
  have r3: "reading_of ''abc'' = Token []" by code_simp
  have r4: "reading_of [] = Nothing" by code_simp
  from numeric_fields_coerced[OF k e, where c = example_client and clk = example_clock]
  obtain u where u: "sent_by example_client (snd (processMessage example_lib example_clock example_client ?q)) =
        [insert_of (table_of example_client) u]"
      "coerced example_lib (?n ''temperature'') (Temperature u)"
      "coerced example_lib (?n ''humidity'') (Humidity u)"
      "coerced example_lib (?n ''light'') (Light u)"
    by blast
  have "Temperature u = 37 / 2"
    using coerced_token[OF u(2)[unfolded nt] r2] v by simp
  moreover have "Humidity u = 0"
    using coerced_token[OF u(3)[unfolded nh] r3] v by simp
  moreover have "Light u = 0"
    using coerced_nothing[OF u(4)[unfolded nl] r4] .
  ultimately have inst2: "\<exists>r. sent_by example_client
        (snd (processMessage example_lib example_clock example_client ?q)) =
        [insert_of ''sensor_data'' r] \<and>
      Temperature r = 37 / 2 \<and> Humidity r = 0 \<and> Light r = 0"
    using u(1) t by auto
  show ?thesis by (intro conjI j inst1 k inst2)
qed

text \<open>
  C2. For every message that yields a record: when the entry \<open>timestamp\<close> is a string that
  \<open>time.Parse\<close> accepts under the layout RFC3339, the record's timestamp is the parsed
  \<open>Time\<close> itself, instant and zone offset; when the entry is absent, is not a string, or
  does not parse, it is the reading of \<open>time.Now()\<close>, which is not before the instant the
  handler was entered. The hypotheses do not mention the timestamp: it never decides
  whether a record is produced.
\<close>

theorem timestamp_parsed_or_now:
  assumes "json_Unmarshal lib payload = Inr rawData"
    and "rawData ''device_id'' = Some (AnyString dev)"
  shows "\<exists>r. sent_by c (snd (processMessage lib clk c payload)) = [insert_of (table_of c) r] \<and>
             (case rawData ''timestamp'' of
                Some (AnyString tsStr) \<Rightarrow>
                  (case time_Parse lib RFC3339 tsStr of
                     Inr t \<Rightarrow> Timestamp r = t
                   | Inl err \<Rightarrow> Timestamp r = time_Now clk \<and> entered clk \<le> unixNano (Timestamp r))
              | _ \<Rightarrow> Timestamp r = time_Now clk \<and> entered clk \<le> unixNano (Timestamp r))"
proof -
  let ?r = "built lib clk rawData dev"
  have "sent_by c (snd (processMessage lib clk c payload)) = [insert_of (table_of c) ?r]"
    using processMessage_sent[OF assms] .
  moreover have "entered clk \<le> unixNano (time_Now clk)"
    by (simp add: time_Now_def)
  then have "(case rawData ''timestamp'' of
                Some (AnyString tsStr) \<Rightarrow>
                  (case time_Parse lib RFC3339 tsStr of
                     Inr t \<Rightarrow> Timestamp ?r = t
                   | Inl err \<Rightarrow> Timestamp ?r = time_Now clk \<and> entered clk \<le> unixNano (Timestamp ?r))
              | _ \<Rightarrow> Timestamp ?r = time_Now clk \<and> entered clk \<le> unixNano (Timestamp ?r))"
    by (simp add: built_def timestamp_of_def split: option.splits any.splits sum.splits)
  ultimately show ?thesis by blast
qed

text \<open>The instance: the message of the specification's end-to-end scenario, with its
  timestamp in UTC.\<close>

theorem timestamp_parsed_or_now_witness:
  "json_Unmarshal example_lib
     ''{\"timestamp\":\"2023-05-20T15:04:05Z\",\"temperature\":24.5,\"humidity\":65.25,\"light\":850,\"device_id\":\"sensor-1\"}'' =
     Inr [''timestamp'' \<mapsto> AnyString ''2023-05-20T15:04:05Z'',
          ''temperature'' \<mapsto> AnyFloat64 (49 / 2), ''humidity'' \<mapsto> AnyFloat64 (261 / 4),
          ''light'' \<mapsto> AnyFloat64 850, ''device_id'' \<mapsto> AnyString ''sensor-1''] \<and>
   (\<exists>r. sent_by example_client
          (snd (processMessage example_lib example_clock example_client
                  ''{\"timestamp\":\"2023-05-20T15:04:05Z\",\"temperature\":24.5,\"humidity\":65.25,\"light\":850,\"device_id\":\"sensor-1\"}'')) =
          [insert_of ''sensor_data'' r] \<and>
        Timestamp r = \<lparr>unixNano = 1684595045000000000, zoneOffset = 0\<rparr>)"
proof -
  let ?p = "''{\"timestamp\":\"2023-05-20T15:04:05Z\",\"temperature\":24.5,\"humidity\":65.25,\"light\":850,\"device_id\":\"sensor-1\"}''"
  let ?m = "[''timestamp'' \<mapsto> AnyString ''2023-05-20T15:04:05Z'',
          ''temperature'' \<mapsto> AnyFloat64 (49 / 2), ''humidity'' \<mapsto> AnyFloat64 (261 / 4),
          ''light'' \<mapsto> AnyFloat64 850, ''device_id'' \<mapsto> AnyString ''sensor-1''] :: string \<rightharpoonup> rat any"
  have j: "json_Unmarshal example_lib ?p = Inr ?m"
    by (simp add: example_lib_def example_json_def)
  have d: "?m ''device_id'' = Some (AnyString ''sensor-1'')" by simp
  have t: "table_of example_client = ''sensor_data''"
    by (simp add: table_of_def example_client_def NewClient_def ready_store_def GetDefaultConfig_def)
  have ts: "?m ''timestamp'' = Some (AnyString ''2023-05-20T15:04:05Z'')" by simp
  have tp: "time_Parse example_lib RFC3339 ''2023-05-20T15:04:05Z'' =
              Inr \<lparr>unixNano = 1684595045000000000, zoneOffset = 0\<rparr>"
    by (simp add: example_lib_def example_time_def)
  from timestamp_parsed_or_now[OF j d, of example_client example_clock]
  obtain r where r: "sent_by example_client (snd (processMessage example_lib example_clock example_client ?p)) =
        [insert_of (table_of example_client) r]"
      "(case ?m ''timestamp'' of
                Some (AnyString tsStr) \<Rightarrow>
                  (case time_Parse example_lib RFC3339 tsStr of
                     Inr t \<Rightarrow> Timestamp r = t
                   | Inl err \<Rightarrow> Timestamp r = time_Now example_clock \<and> entered example_clock \<le> unixNano (Timestamp r))
              | _ \<Rightarrow> Timestamp r = time_Now example_clock \<and> entered example_clock \<le> unixNano (Timestamp r))"
    by blast
  have "Timestamp r = \<lparr>unixNano = 1684595045000000000, zoneOffset = 0\<rparr>"
    using r(2) unfolding ts by (simp add: tp)
  then show ?thesis using j r(1) t by auto
qed

text \<open>
  C3. Decoding fails in exactly two cases, and otherwise yields a record. When the body
  does not parse (\<open>malformed\<close>) the handler logs the parse error and returns the client
  as it was; when \<open>device_id\<close> is absent or not a string (\<open>missingDeviceID\<close>) it logs that
  and returns the client as it was: in both cases no record exists and nothing is sent
  to the store. In every other case exactly one insert is sent. Hence nothing is sent
  if and only if one of the two failures holds.
\<close>

theorem decode_fails_iff:
  "(case decode_failure lib payload of
      Some malformed \<Rightarrow>
        (\<exists>err. processMessage lib clk c payload =
                 ([Printf ''Error unmarshaling message: %v'' [LErr err]], c))
    | Some missingDeviceID \<Rightarrow>
        (\<exists>lg. processMessage lib clk c payload =
                 (lg @ [Println ''Error: device_id is missing or not a string''], c))
    | None \<Rightarrow>
        (\<exists>r. sent_by c (snd (processMessage lib clk c payload)) = [insert_of (table_of c) r])) \<and>
   (sent_by c (snd (processMessage lib clk c payload)) = []) = (decode_failure lib payload \<noteq> None)"
proof (cases "json_Unmarshal lib payload")
  case (Inl err)
  then show ?thesis
    by (simp add: decode_failure_def processMessage_malformed sent_by_same)
next
  case (Inr rawData)
  show ?thesis
  proof (cases "\<exists>d. rawData ''device_id'' = Some (AnyString d)")
    case True
    then obtain d where d: "rawData ''device_id'' = Some (AnyString d)" ..
    have "decode_failure lib payload = None"
      using Inr d by (simp add: decode_failure_def)
    then show ?thesis using processMessage_sent[OF Inr d, of c clk] by auto
  next
    case False
    then have f: "\<forall>d. rawData ''device_id'' \<noteq> Some (AnyString d)" by simp
    have "decode_failure lib payload = Some missingDeviceID"
      using Inr f by (simp add: decode_failure_def split: option.splits any.splits)
    moreover from processMessage_missing[OF Inr f, of clk c] obtain lg where
      "processMessage lib clk c payload =
         (lg @ [Println ''Error: device_id is missing or not a string''], c)" ..
    ultimately show ?thesis by (simp add: sent_by_same)
  qed
qed

text \<open>The instance: the specification's third scenario, a message without \<open>device_id\<close>.\<close>

theorem decode_fails_iff_witness:
  "decode_failure example_lib ''{\"temperature\":24.5}'' = Some missingDeviceID \<and>
   processMessage example_lib example_clock example_client ''{\"temperature\":24.5}'' =
     ([Println ''Error: device_id is missing or not a string''], example_client) \<and>
   sent_by example_client
     (snd (processMessage example_lib example_clock example_client ''{\"temperature\":24.5}'')) = []"
proof -
  let ?p = "''{\"temperature\":24.5}''"
  have f: "decode_failure example_lib ?p = Some missingDeviceID"
    by (simp add: decode_failure_def example_lib_def example_json_def)
  have p: "processMessage example_lib example_clock example_client ?p =
     ([Println ''Error: device_id is missing or not a string''], example_client)"
    by (simp add: processMessage_def example_lib_def example_json_def)
  from decode_fails_iff[where lib = example_lib and payload = ?p and clk = example_clock
      and c = example_client] f
  have "sent_by example_client (snd (processMessage example_lib example_clock example_client ?p)) = []"
    by simp
  then show ?thesis using f p by simp
qed

text \<open>
  C7 as stated does not hold: the message \<open>{"device_id":""}\<close> is not rejected, and the
  record stored for it has the empty string as its \<open>device_id\<close>.
\<close>

theorem empty_device_id_stored:
  "decode_failure example_lib ''{\"device_id\":\"\"}'' = None \<and>
   sent_by example_client
     (snd (processMessage example_lib example_clock example_client ''{\"device_id\":\"\"}'')) =
     [insert_of ''sensor_data''
        \<lparr>Timestamp = time_Now example_clock, Temperature = 0, Humidity = 0, Light = 0,
         Device_ID = ''''\<rparr>]"
proof -
  let ?p = "''{\"device_id\":\"\"}''"
  let ?m = "[''device_id'' \<mapsto> AnyString ''''] :: string \<rightharpoonup> rat any"
  have j: "json_Unmarshal example_lib ?p = Inr ?m"
    by (simp add: example_lib_def example_json_def)
  have d: "?m ''device_id'' = Some (AnyString '''')" by simp
  have t: "table_of example_client = ''sensor_data''"
    by (simp add: table_of_def example_client_def NewClient_def ready_store_def GetDefaultConfig_def)
  have b: "built example_lib example_clock ?m '''' =
      \<lparr>Timestamp = time_Now example_clock, Temperature = 0, Humidity = 0, Light = 0, Device_ID = ''''\<rparr>"
    by (simp add: built_def timestamp_of_def getFloat64Value_def)
  have f: "decode_failure example_lib ?p = None"
    using j by (simp add: decode_failure_def)
  have s: "sent_by example_client
     (snd (processMessage example_lib example_clock example_client ?p)) =
     [insert_of ''sensor_data''
        \<lparr>Timestamp = time_Now example_clock, Temperature = 0, Humidity = 0, Light = 0,
         Device_ID = ''''\<rparr>]"
    using processMessage_sent[OF j d, of example_client example_clock] unfolding t b .
  show ?thesis by (intro conjI f s)
qed

text \<open>
  C7, as amended. For every message, either the handler rejects it (a decode failure: the
  client is returned as it was, so no record exists and nothing is sent), or it stores
  exactly one record whose \<open>device_id\<close> is the string of the message's \<open>device_id\<close> entry,
  whatever that string is: the type is tested, the length is not.
\<close>

theorem device_id_is_message_string:
  "(case decode_failure lib payload of
      Some f \<Rightarrow> snd (processMessage lib clk c payload) = c
    | None \<Rightarrow>
        (\<exists>r rawData. json_Unmarshal lib payload = Inr rawData \<and>
           rawData ''device_id'' = Some (AnyString (Device_ID r)) \<and>
           sent_by c (snd (processMessage lib clk c payload)) = [insert_of (table_of c) r]))"
proof (cases "json_Unmarshal lib payload")
  case (Inl err)
  then show ?thesis
    by (simp add: decode_failure_def processMessage_malformed)
next
  case (Inr rawData)
  show ?thesis
  proof (cases "\<exists>d. rawData ''device_id'' = Some (AnyString d)")
    case True
    then obtain d where d: "rawData ''device_id'' = Some (AnyString d)" ..
    have n: "decode_failure lib payload = None"
      using Inr d by (simp add: decode_failure_def)
    have "Device_ID (built lib clk rawData d) = d" by (simp add: built_def)
    then have "rawData ''device_id'' = Some (AnyString (Device_ID (built lib clk rawData d)))"
      using d by simp
    then show ?thesis using n Inr processMessage_sent[OF Inr d, of c clk] by auto
  next
    case False
    then have f: "\<forall>d. rawData ''device_id'' \<noteq> Some (AnyString d)" by simp
    have "decode_failure lib payload = Some missingDeviceID"
      using Inr f by (simp add: decode_failure_def split: option.splits any.splits)
    moreover from processMessage_missing[OF Inr f, of clk c] obtain lg where
      "processMessage lib clk c payload =
         (lg @ [Println ''Error: device_id is missing or not a string''], c)" ..
    ultimately show ?thesis by simp
  qed
qed

text \<open>The instance for the amended statement: the same message.\<close>

theorem device_id_is_message_string_witness:
  "decode_failure example_lib ''{\"device_id\":\"\"}'' = None \<and>
   (\<exists>r rawData. json_Unmarshal example_lib ''{\"device_id\":\"\"}'' = Inr rawData \<and>
           rawData ''device_id'' = Some (AnyString (Device_ID r)) \<and>
           sent_by example_client
             (snd (processMessage example_lib example_clock example_client ''{\"device_id\":\"\"}'')) =
             [insert_of (table_of example_client) r])"
proof -
  have f: "decode_failure example_lib ''{\"device_id\":\"\"}'' = None"
    by (simp add: decode_failure_def example_lib_def example_json_def)
  from device_id_is_message_string[where lib = example_lib and payload = "''{\"device_id\":\"\"}''"
      and clk = example_clock and c = example_client] f
  show ?thesis by simp
qed

subsection \<open>The handler and the session\<close>

text \<open>
  C8. The handler that \<open>Subscribe\<close> registers always returns, and whatever the message
  the client it returns has the session state, the stop channel and the configuration
  it had before. When decoding fails the whole client is unchanged and the failure is
  the last line logged; when the insert fails the error is the last line logged and the
  server's data is unchanged; nothing is retried (one statement is sent). The handler's
  model has no way out but its result: the source has no panic on these paths (reads of
  a possibly nil map and comma-ok type assertions).
\<close>

theorem handler_keeps_session:
  "client (snd (handler lib clk c topic payload)) = client c \<and>
   stopChan (snd (handler lib clk c topic payload)) = stopChan c \<and>
   Client.config (snd (handler lib clk c topic payload)) = Client.config c \<and>
   (case decode_failure lib payload of
      Some malformed \<Rightarrow>
        snd (handler lib clk c topic payload) = c \<and>
        (\<exists>err. fst (handler lib clk c topic payload) =
           [Printf ''Received message on topic %s: %s'' [LStr topic, LStr payload],
            Printf ''Error unmarshaling message: %v'' [LErr err]])
    | Some missingDeviceID \<Rightarrow>
        snd (handler lib clk c topic payload) = c \<and>
        (\<exists>lg. fst (handler lib clk c topic payload) =
           Printf ''Received message on topic %s: %s'' [LStr topic, LStr payload] #
           lg @ [Println ''Error: device_id is missing or not a string''])
    | None \<Rightarrow>
        (\<exists>r. sent_by c (snd (handler lib clk c topic payload)) = [insert_of (table_of c) r] \<and>
           (case fst (request (conn (db c)) (fst (insert_of (table_of c) r))
                        (snd (insert_of (table_of c) r))) of
              Inl err \<Rightarrow>
                (\<exists>lg. fst (handler lib clk c topic payload) =
                   Printf ''Received message on topic %s: %s'' [LStr topic, LStr payload] #
                   lg @ [Printf ''Error inserting sensor data: %v''
                           [LErr (Errorf ''failed to insert sensor data'' err)]]) \<and>
                server (conn (db (snd (handler lib clk c topic payload)))) = server (conn (db c))
            | Inr rep \<Rightarrow>
                (\<exists>lg args. fst (handler lib clk c topic payload) =
                   Printf ''Received message on topic %s: %s'' [LStr topic, LStr payload] #
                   lg @ [Printf ''Successfully processed and stored sensor data: time=%v, temp=%.2f, humidity=%.2f, light=%.2f'' args]))))"
proof -
  have frame: "client (snd (handler lib clk c topic payload)) = client c \<and>
   stopChan (snd (handler lib clk c topic payload)) = stopChan c \<and>
   Client.config (snd (handler lib clk c topic payload)) = Client.config c"
    using processMessage_frame[where lib = lib and clk = clk and c = c and payload = payload] by (simp add: handler_processMessage)
  show ?thesis
  proof (cases "json_Unmarshal lib payload")
    case (Inl err)
    then show ?thesis using frame
      by (simp add: decode_failure_def handler_processMessage processMessage_malformed)
  next
    case (Inr rawData)
    show ?thesis
    proof (cases "\<exists>d. rawData ''device_id'' = Some (AnyString d)")
      case True
      then obtain d where d: "rawData ''device_id'' = Some (AnyString d)" ..
      have n: "decode_failure lib payload = None"
        using Inr d by (simp add: decode_failure_def)
      let ?r = "built lib clk rawData d"
      have s: "sent_by c (snd (handler lib clk c topic payload)) = [insert_of (table_of c) ?r]"
        using processMessage_sent[OF Inr d, where c = c and clk = clk] by (simp add: handler_processMessage)
      have o: "(case fst (request (conn (db c)) (fst (insert_of (table_of c) ?r))
                        (snd (insert_of (table_of c) ?r))) of
              Inl err \<Rightarrow>
                (\<exists>lg. fst (handler lib clk c topic payload) =
                   Printf ''Received message on topic %s: %s'' [LStr topic, LStr payload] #
                   lg @ [Printf ''Error inserting sensor data: %v''
                           [LErr (Errorf ''failed to insert sensor data'' err)]]) \<and>
                server (conn (db (snd (handler lib clk c topic payload)))) = server (conn (db c))
            | Inr rep \<Rightarrow>
                (\<exists>lg args. fst (handler lib clk c topic payload) =
                   Printf ''Received message on topic %s: %s'' [LStr topic, LStr payload] #
                   lg @ [Printf ''Successfully processed and stored sensor data: time=%v, temp=%.2f, humidity=%.2f, light=%.2f'' args]))"
        using processMessage_outcome[OF Inr d, where c = c and clk = clk]
        by (auto simp: handler_processMessage split: sum.splits)
      show ?thesis using frame n s o by auto
    next
      case False
      then have f: "\<forall>d. rawData ''device_id'' \<noteq> Some (AnyString d)" by simp
      have "decode_failure lib payload = Some missingDeviceID"
        using Inr f by (simp add: decode_failure_def split: option.splits any.splits)
      moreover from processMessage_missing[OF Inr f, where clk = clk and c = c] obtain lg where
        "processMessage lib clk c payload =
           (lg @ [Println ''Error: device_id is missing or not a string''], c)" ..
      ultimately show ?thesis using frame by (simp add: handler_processMessage)
    qed
  qed
qed

text \<open>The instance: a well-formed message arrives while the connection to the store is
  broken.\<close>

theorem handler_keeps_session_witness:
  "decode_failure example_lib
     ''{\"timestamp\":\"2023-05-20T15:04:05Z\",\"temperature\":24.5,\"humidity\":65.25,\"light\":850,\"device_id\":\"sensor-1\"}'' = None \<and>
   client (snd (handler example_lib example_clock faulty_client ''sensors/data''
     ''{\"timestamp\":\"2023-05-20T15:04:05Z\",\"temperature\":24.5,\"humidity\":65.25,\"light\":850,\"device_id\":\"sensor-1\"}'')) =
     Disconnected \<and>
   (\<exists>lg. fst (handler example_lib example_clock faulty_client ''sensors/data''
     ''{\"timestamp\":\"2023-05-20T15:04:05Z\",\"temperature\":24.5,\"humidity\":65.25,\"light\":850,\"device_id\":\"sensor-1\"}'') =
      Printf ''Received message on topic %s: %s'' [LStr ''sensors/data'',
        LStr ''{\"timestamp\":\"2023-05-20T15:04:05Z\",\"temperature\":24.5,\"humidity\":65.25,\"light\":850,\"device_id\":\"sensor-1\"}''] #
      lg @ [Printf ''Error inserting sensor data: %v''
              [LErr (Errorf ''failed to insert sensor data'' (PgError Connection_failure))]])"
proof -
  let ?p = "''{\"timestamp\":\"2023-05-20T15:04:05Z\",\"temperature\":24.5,\"humidity\":65.25,\"light\":850,\"device_id\":\"sensor-1\"}''"
  have f: "decode_failure example_lib ?p = None"
    by (simp add: decode_failure_def example_lib_def example_json_def)
  have rt: "fst (request (conn (db faulty_client)) q a) = Inl (PgError Connection_failure)" for q a
    by (rule request_fault[of _ "[]"]) (simp add: faulty_client_def NewClient_def)
  have cl: "client faulty_client = Disconnected"
    by (simp add: faulty_client_def NewClient_def)
  from handler_keeps_session[where lib = example_lib and payload = ?p and clk = example_clock
      and c = faulty_client and topic = "''sensors/data''"]
  show ?thesis unfolding f by (auto simp: rt cl)
qed

subsection \<open>The store gateway\<close>

text \<open>
  What \<open>InsertSensorData\<close> does, for both copies of the package. Each sends exactly one
  statement, the insert of the record's five fields in the order time, temperature,
  humidity, light, device_id, and returns the same error and receiver. When the
  request fails the error comes back wrapped and the server's data is unchanged. When it
  succeeds the result is nil whatever the row count; the copy at lines 199-226 logs the
  count, the copy at lines 92-106 logs nothing. On a relation with the columns of the
  schema and a healthy connection one row is appended, holding the five values in
  column order, unless the relation cancels inserts: then the count is zero and the
  call still succeeds.
\<close>

lemma InsertSensorData_one_row:
  "(\<exists>lg err d'.
      InsertSensorData d r = (lg, err, d') \<and> InsertSensorData_A d r = ([], err, d') \<and>
      sent (conn d') =
        sent (conn d) @ [insert_of (TableName (Timescale (TimescaleDB.config d))) r] \<and>
      (case fst (request (conn d)
                  (fst (insert_of (TableName (Timescale (TimescaleDB.config d))) r))
                  (snd (insert_of (TableName (Timescale (TimescaleDB.config d))) r))) of
         Inl e \<Rightarrow>
           err = Some (Errorf ''failed to insert sensor data'' e) \<and>
           server (conn d') = server (conn d)
       | Inr rep \<Rightarrow>
           err = None \<and>
           lg = [line1_of (TableName (Timescale (TimescaleDB.config d))) r,
                 Printf ''DB INSERT affected rows: %d'' [LInt (int (rows_of rep))]])) \<and>
   (faults (conn d) = [] \<and>
    relations (server (conn d)) (TableName (Timescale (TimescaleDB.config d))) = Some rel \<and>
    columns rel = sensor_columns \<longrightarrow>
      (\<exists>d'. InsertSensorData d r =
               ([line1_of (TableName (Timescale (TimescaleDB.config d))) r,
                 Printf ''DB INSERT affected rows: %d'' [LInt (if skipInserts rel then 0 else 1)]],
                None, d') \<and>
            relations (server (conn d')) =
              (relations (server (conn d)))(TableName (Timescale (TimescaleDB.config d)) \<mapsto>
                 (if skipInserts rel then rel
                  else rel\<lparr>tuples := tuples rel @
                         [[DTime (Timestamp r), DFloat (Temperature r), DFloat (Humidity r),
                           DFloat (Light r), DText (Device_ID r)]]\<rparr>))))"
proof (intro conjI impI)
  let ?t = "TableName (Timescale (TimescaleDB.config d))"
  let ?rt = "request (conn d) (fst (insert_of ?t r)) (snd (insert_of ?t r))"
  obtain res c1 where rt: "?rt = (res, c1)" by (cases ?rt)
  have s1: "sent c1 = sent (conn d) @ [insert_of ?t r]"
    using sent_request[of "conn d" "fst (insert_of ?t r)" "snd (insert_of ?t r)"] rt by simp
  show "\<exists>lg err d'.
      InsertSensorData d r = (lg, err, d') \<and> InsertSensorData_A d r = ([], err, d') \<and>
      sent (conn d') = sent (conn d) @ [insert_of ?t r] \<and>
      (case fst ?rt of
         Inl e \<Rightarrow>
           err = Some (Errorf ''failed to insert sensor data'' e) \<and>
           server (conn d') = server (conn d)
       | Inr rep \<Rightarrow>
           err = None \<and>
           lg = [line1_of ?t r, Printf ''DB INSERT affected rows: %d'' [LInt (int (rows_of rep))]])"
  proof (cases res)
    case (Inl e)
    have "server c1 = server (conn d)"
      using request_failed_server[of "conn d" "fst (insert_of ?t r)" "snd (insert_of ?t r)" e] rt Inl
      by simp
    then show ?thesis using rt Inl s1
      by (simp add: InsertSensorData_A_result InsertSensorData_result)
  next
    case (Inr rep)
    then show ?thesis using rt s1
      by (simp add: InsertSensorData_A_result InsertSensorData_result)
  qed
next
  let ?t = "TableName (Timescale (TimescaleDB.config d))"
  assume a: "faults (conn d) = [] \<and> relations (server (conn d)) ?t = Some rel \<and>
             columns rel = sensor_columns"
  then have f: "faults (conn d) = []" and rel: "relations (server (conn d)) ?t = Some rel"
    and cols: "columns rel = sensor_columns" by simp_all
  have io: "snd (insert_of ?t r) = [DTime (Timestamp r), DFloat (Temperature r), DFloat (Humidity r),
                           DFloat (Light r), DText (Device_ID r)]"
    by (simp add: insert_of_def)
  show "\<exists>d'. InsertSensorData d r =
               ([line1_of ?t r,
                 Printf ''DB INSERT affected rows: %d'' [LInt (if skipInserts rel then 0 else 1)]],
                None, d') \<and>
            relations (server (conn d')) =
              (relations (server (conn d)))(?t \<mapsto>
                 (if skipInserts rel then rel
                  else rel\<lparr>tuples := tuples rel @
                         [[DTime (Timestamp r), DFloat (Temperature r), DFloat (Humidity r),
                           DFloat (Light r), DText (Device_ID r)]]\<rparr>))"
    unfolding InsertSensorData_healthy[OF f rel cols] io by simp
qed

text \<open>An instance: the relation cancels the insert, the count logged is zero, the result
  is nil.\<close>

lemma InsertSensorData_one_row_instance:
  "faults (conn muted_store) = [] \<and>
   InsertSensorData muted_store example_record =
     ([line1_of ''sensor_data'' example_record, Printf ''DB INSERT affected rows: %d'' [LInt 0]],
      None,
      muted_store\<lparr>conn := (conn muted_store)\<lparr>sent := [insert_of ''sensor_data'' example_record]\<rparr>\<rparr>)"
proof -
  let ?rel = "\<lparr>columns = sensor_columns, timeColumn = Some ''time'', tuples = [], skipInserts = True\<rparr> :: rat relation"
  have t: "TableName (Timescale (TimescaleDB.config muted_store)) = ''sensor_data''"
    by (simp add: muted_store_def GetDefaultConfig_def)
  have f: "faults (conn muted_store) = []"
    by (simp add: muted_store_def connected_def)
  have rel: "relations (server (conn muted_store)) ''sensor_data'' = Some ?rel"
    by (simp add: muted_store_def connected_def)
  have cols: "columns ?rel = sensor_columns" by simp
  from InsertSensorData_one_row[where d = muted_store and r = example_record and rel = ?rel]
  have "\<exists>d'. InsertSensorData muted_store example_record =
          ([line1_of ''sensor_data'' example_record,
            Printf ''DB INSERT affected rows: %d'' [LInt 0]], None, d')"
    unfolding t using f rel cols by auto
  then obtain d' where d': "InsertSensorData muted_store example_record =
          ([line1_of ''sensor_data'' example_record,
            Printf ''DB INSERT affected rows: %d'' [LInt 0]], None, d')" ..
  have rel': "relations (server (conn muted_store)) (TableName (Timescale (TimescaleDB.config muted_store))) = Some ?rel"
    using rel t by simp
  have "d' = muted_store\<lparr>conn := (conn muted_store)\<lparr>sent := [insert_of ''sensor_data'' example_record]\<rparr>\<rparr>"
    using d' unfolding InsertSensorData_healthy[OF f rel' cols] t
    by (simp add: muted_store_def connected_def)
  then show ?thesis using d' f by simp
qed

text \<open>
  C6. The copy of \<open>InsertSensorData\<close> at lines 92-106 binds the command tag to \<open>_\<close>: on a
  relation that cancels the insert (zero rows affected) it returns nil and logs nothing,
  where the copy at lines 199-226 logs \<open>DB INSERT affected rows: 0\<close>. Both send the
  same single statement.
\<close>

theorem InsertSensorData_A_drops_count:
  "InsertSensorData_A muted_store example_record =
     ([], None,
      muted_store\<lparr>conn := (conn muted_store)\<lparr>sent := [insert_of ''sensor_data'' example_record]\<rparr>\<rparr>) \<and>
   InsertSensorData muted_store example_record =
     ([line1_of ''sensor_data'' example_record, Printf ''DB INSERT affected rows: %d'' [LInt 0]],
      None,
      muted_store\<lparr>conn := (conn muted_store)\<lparr>sent := [insert_of ''sensor_data'' example_record]\<rparr>\<rparr>)"
proof -
  let ?rel = "\<lparr>columns = sensor_columns, timeColumn = Some ''time'', tuples = [], skipInserts = True\<rparr> :: rat relation"
  have t: "TableName (Timescale (TimescaleDB.config muted_store)) = ''sensor_data''"
    by (simp add: muted_store_def GetDefaultConfig_def)
  have f: "faults (conn muted_store) = []"
    by (simp add: muted_store_def connected_def)
  have rel: "relations (server (conn muted_store))
               (TableName (Timescale (TimescaleDB.config muted_store))) = Some ?rel"
    by (simp add: t) (simp add: muted_store_def connected_def)
  have cols: "columns ?rel = sensor_columns" by simp
  have b: "InsertSensorData muted_store example_record =
     ([line1_of ''sensor_data'' example_record, Printf ''DB INSERT affected rows: %d'' [LInt 0]],
      None,
      muted_store\<lparr>conn := (conn muted_store)\<lparr>sent := [insert_of ''sensor_data'' example_record]\<rparr>\<rparr>)"
    unfolding InsertSensorData_healthy[OF f rel cols] t
    by (simp add: muted_store_def connected_def)
  show ?thesis using b by (simp add: InsertSensorData_A_result)
qed

text \<open>
  Schema initialization, copy at lines 146-196: on a healthy connection to a server with
  the extension, for a table name that is a plain identifier, two calls in sequence
  both return nil, and the second sends only the catalog query and leaves the server as
  the first left it.
\<close>

lemma InitializeTable_twice:
  assumes f: "faults (conn d) = []"
    and ext: "timescaledb (server (conn d))"
    and id: "plain_ident (TableName (Timescale (TimescaleDB.config d)))"
  shows "\<exists>lg1 d1 lg2 d2.
           InitializeTable d = (lg1, None, d1) \<and> InitializeTable d1 = (lg2, None, d2) \<and>
           server (conn d2) = server (conn d1) \<and>
           sent (conn d2) = sent (conn d1) @
             [(SelectTableExists, [DText (TableName (Timescale (TimescaleDB.config d)))])]"
proof -
  let ?t = "TableName (Timescale (TimescaleDB.config d))"
  have step: "\<exists>lg1 d1. InitializeTable d = (lg1, None, d1) \<and> faults (conn d1) = [] \<and>
      TimescaleDB.config d1 = TimescaleDB.config d \<and> ?t \<in> dom (relations (server (conn d1)))"
  proof (cases "relations (server (conn d)) ?t")
    case None
    show ?thesis
      using InitializeTable_absent[OF f ext id None] f by simp
  next
    case (Some rel)
    then have "?t \<in> dom (relations (server (conn d)))" by auto
    then show ?thesis
      using InitializeTable_present[OF f] f by simp
  qed
  then obtain lg1 d1 where d1: "InitializeTable d = (lg1, None, d1)" "faults (conn d1) = []"
      "TimescaleDB.config d1 = TimescaleDB.config d" "?t \<in> dom (relations (server (conn d1)))"
    by blast
  have "TableName (Timescale (TimescaleDB.config d1)) \<in> dom (relations (server (conn d1)))"
    using d1 by simp
  from InitializeTable_present[OF d1(2) this] d1 show ?thesis by simp
qed

text \<open>The copy at lines 39-89 has the same check: whenever a call of it returns nil, the
  next call sends only the catalog query, returns nil and changes nothing.\<close>

lemma InitializeTable_A_twice:
  assumes f: "faults (conn d) = []"
    and ok: "InitializeTable_A d = (lg1, None, d1)"
  shows "\<exists>lg2 d2.
           InitializeTable_A d1 = (lg2, None, d2) \<and>
           server (conn d2) = server (conn d1) \<and>
           sent (conn d2) = sent (conn d1) @
             [(SelectTableExists, [DText (TableName (Timescale (TimescaleDB.config d)))])]"
proof -
  let ?t = "TableName (Timescale (TimescaleDB.config d))"
  have "relations (server (conn d)) ?t \<noteq> None"
  proof
    assume "relations (server (conn d)) ?t = None"
    from InitializeTable_A_absent[OF f this] ok show False by simp
  qed
  then have p: "?t \<in> dom (relations (server (conn d)))" by auto
  from InitializeTable_A_present[OF f p] ok
  have d1: "d1 = d\<lparr>conn := (conn d)\<lparr>sent := sent (conn d) @ [(SelectTableExists, [DText ?t])]\<rparr>\<rparr>"
    by simp
  have f1: "faults (conn d1) = []" using d1 f by simp
  have p1: "TableName (Timescale (TimescaleDB.config d1)) \<in> dom (relations (server (conn d1)))"
    using d1 p by simp
  from InitializeTable_A_present[OF f1 p1] d1 show ?thesis by simp
qed

text \<open>
  Copy at lines 146-196, relation absent: the call creates the relation with exactly the
  columns of the schema, \<open>time\<close> and \<open>device_id\<close> not null, and makes it a hypertable on
  \<open>time\<close>; the conversion statement it sent, run again on the relation now partitioned,
  returns no error and changes nothing.
\<close>

lemma InitializeTable_creates:
  assumes f: "faults (conn d) = []"
    and ext: "timescaledb (server (conn d))"
    and id: "plain_ident (TableName (Timescale (TimescaleDB.config d)))"
    and abs: "relations (server (conn d)) (TableName (Timescale (TimescaleDB.config d))) = None"
  shows "\<exists>lg d'.
           InitializeTable d = (lg, None, d') \<and>
           relations (server (conn d')) =
             (relations (server (conn d)))(TableName (Timescale (TimescaleDB.config d)) \<mapsto>
                \<lparr>columns = sensor_columns, timeColumn = Some ''time'', tuples = [],
                 skipInserts = False\<rparr>) \<and>
           sent (conn d') = sent (conn d) @
             [(SelectTableExists, [DText (TableName (Timescale (TimescaleDB.config d)))]),
              (create_stmt (TableName (Timescale (TimescaleDB.config d))), []),
              (SelectCreateHypertable (TableName (Timescale (TimescaleDB.config d))) ''time'' True, [])] \<and>
           pg_exec (server (conn d'))
             (SelectCreateHypertable (TableName (Timescale (TimescaleDB.config d))) ''time'' True) [] =
             Inr (Row False, server (conn d'))"
  using InitializeTable_absent[OF f ext id abs] ext
  by (simp add: fresh_relation_def pg_exec_def)

text \<open>
  C5. On a database without the relation, the copy of \<open>InitializeTable\<close> at lines 39-89
  sends a \<open>CREATE TABLE\<close> whose column list the server cannot parse (no comma after
  \<open>light DOUBLE PRECISION\<close>, a comma after the last column): it returns
  \<open>failed to create table\<close> with a syntax error, and no relation exists afterwards. On
  the same database the copy at lines 146-196 returns nil and leaves the relation with
  the columns of the schema, partitioned on \<open>time\<close>.
\<close>

theorem InitializeTable_A_create_rejected:
  "InitializeTable_A fresh_store =
     ([Printf ''Creating table %s...'' [LStr ''sensor_data'']],
      Some (Errorf ''failed to create table'' (PgError Syntax_error)),
      fresh_store\<lparr>conn := (conn fresh_store)\<lparr>sent :=
        [(SelectTableExists, [DText ''sensor_data'']), (create_stmt_A ''sensor_data'', [])]\<rparr>\<rparr>) \<and>
   relations (server (conn fresh_store)) = Map.empty \<and>
   fst (snd (InitializeTable fresh_store)) = None \<and>
   relations (server (conn (snd (snd (InitializeTable fresh_store))))) ''sensor_data'' =
     Some \<lparr>columns = sensor_columns, timeColumn = Some ''time'', tuples = [], skipInserts = False\<rparr>"
proof -
  have f: "faults (conn fresh_store) = []" by (simp add: fresh_store_def connected_def)
  have t: "TableName (Timescale (TimescaleDB.config fresh_store)) = ''sensor_data''"
    by (simp add: fresh_store_def GetDefaultConfig_def)
  have e: "relations (server (conn fresh_store)) = Map.empty"
    by (simp add: fresh_store_def connected_def empty_database_def)
  have abs: "relations (server (conn fresh_store)) (TableName (Timescale (TimescaleDB.config fresh_store))) = None"
    by (simp add: e)
  have ext: "timescaledb (server (conn fresh_store))"
    by (simp add: fresh_store_def connected_def empty_database_def)
  have id: "plain_ident (TableName (Timescale (TimescaleDB.config fresh_store)))"
    by (simp add: t plain_ident_def lower_letter_def digit_char_def)
  have a: "InitializeTable_A fresh_store =
     ([Printf ''Creating table %s...'' [LStr ''sensor_data'']],
      Some (Errorf ''failed to create table'' (PgError Syntax_error)),
      fresh_store\<lparr>conn := (conn fresh_store)\<lparr>sent :=
        [(SelectTableExists, [DText ''sensor_data'']), (create_stmt_A ''sensor_data'', [])]\<rparr>\<rparr>)"
    using InitializeTable_A_absent[OF f abs] unfolding t
    by (simp add: fresh_store_def connected_def)
  have b: "fst (snd (InitializeTable fresh_store)) = None \<and>
   relations (server (conn (snd (snd (InitializeTable fresh_store))))) ''sensor_data'' =
     Some \<lparr>columns = sensor_columns, timeColumn = Some ''time'', tuples = [], skipInserts = False\<rparr>"
    using InitializeTable_absent[OF f ext id abs] unfolding t
    by (simp add: fresh_relation_def)
  show ?thesis using a e b by simp
qed

text \<open>
  C4. On a database without the relation, two calls in sequence of the copy of
  \<open>InitializeTable\<close> at lines 39-89 both return the error \<open>failed to create table\<close>; two
  calls of the copy at lines 146-196 both return nil, and the second leaves the server
  as the first left it.
\<close>

theorem InitializeTable_A_twice_fails:
  "fst (snd (InitializeTable_A fresh_store)) =
     Some (Errorf ''failed to create table'' (PgError Syntax_error)) \<and>
   fst (snd (InitializeTable_A (snd (snd (InitializeTable_A fresh_store))))) =
     Some (Errorf ''failed to create table'' (PgError Syntax_error)) \<and>
   fst (snd (InitializeTable fresh_store)) = None \<and>
   fst (snd (InitializeTable (snd (snd (InitializeTable fresh_store))))) = None \<and>
   server (conn (snd (snd (InitializeTable (snd (snd (InitializeTable fresh_store))))))) =
     server (conn (snd (snd (InitializeTable fresh_store))))"
proof -
  have f: "faults (conn fresh_store) = []" by (simp add: fresh_store_def connected_def)
  have t: "TableName (Timescale (TimescaleDB.config fresh_store)) = ''sensor_data''"
    by (simp add: fresh_store_def GetDefaultConfig_def)
  have abs: "relations (server (conn fresh_store)) (TableName (Timescale (TimescaleDB.config fresh_store))) = None"
    by (simp add: fresh_store_def connected_def empty_database_def)
  have ext: "timescaledb (server (conn fresh_store))"
    by (simp add: fresh_store_def connected_def empty_database_def)
  have id: "plain_ident (TableName (Timescale (TimescaleDB.config fresh_store)))"
    by (simp add: t plain_ident_def lower_letter_def digit_char_def)
  let ?d1 = "snd (snd (InitializeTable_A fresh_store))"
  have a1: "fst (snd (InitializeTable_A fresh_store)) =
     Some (Errorf ''failed to create table'' (PgError Syntax_error))"
    using InitializeTable_A_absent[OF f abs] by simp
  have f1: "faults (conn ?d1) = []" using InitializeTable_A_absent[OF f abs] f by simp
  have abs1: "relations (server (conn ?d1)) (TableName (Timescale (TimescaleDB.config ?d1))) = None"
    using InitializeTable_A_absent[OF f abs] abs by simp
  have a2: "fst (snd (InitializeTable_A ?d1)) =
     Some (Errorf ''failed to create table'' (PgError Syntax_error))"
    using InitializeTable_A_absent[OF f1 abs1] by simp
  from InitializeTable_twice[OF f ext id] obtain lg1 d1 lg2 d2 where
    "InitializeTable fresh_store = (lg1, None, d1)" "InitializeTable d1 = (lg2, None, d2)"
    "server (conn d2) = server (conn d1)" by blast
  then have b: "fst (snd (InitializeTable fresh_store)) = None \<and>
   fst (snd (InitializeTable (snd (snd (InitializeTable fresh_store))))) = None \<and>
   server (conn (snd (snd (InitializeTable (snd (snd (InitializeTable fresh_store))))))) =
     server (conn (snd (snd (InitializeTable fresh_store))))" by simp
  show ?thesis using a1 a2 b by simp
qed

text \<open>
  The first end-to-end scenario of the specification: the message is decoded and one row
  with exactly its five values is appended to the relation.
\<close>

lemma end_to_end_first_scenario:
  "relations (server (conn (db (snd (handler example_lib example_clock example_client ''sensors/data''
     ''{\"timestamp\":\"2023-05-20T15:04:05Z\",\"temperature\":24.5,\"humidity\":65.25,\"light\":850,\"device_id\":\"sensor-1\"}''))))) ''sensor_data'' =
   Some \<lparr>columns = sensor_columns, timeColumn = Some ''time'',
         tuples = [[DTime \<lparr>unixNano = 1684595045000000000, zoneOffset = 0\<rparr>,
                    DFloat (49 / 2), DFloat (261 / 4), DFloat 850, DText ''sensor-1'']],
         skipInserts = False\<rparr>"
proof -
  let ?p = "''{\"timestamp\":\"2023-05-20T15:04:05Z\",\"temperature\":24.5,\"humidity\":65.25,\"light\":850,\"device_id\":\"sensor-1\"}''"
  let ?m = "[''timestamp'' \<mapsto> AnyString ''2023-05-20T15:04:05Z'',
          ''temperature'' \<mapsto> AnyFloat64 (49 / 2), ''humidity'' \<mapsto> AnyFloat64 (261 / 4),
          ''light'' \<mapsto> AnyFloat64 850, ''device_id'' \<mapsto> AnyString ''sensor-1''] :: string \<rightharpoonup> rat any"
  let ?rel = "fresh_relation\<lparr>timeColumn := Some ''time''\<rparr> :: rat relation"
  have j: "json_Unmarshal example_lib ?p = Inr ?m"
    by (simp add: example_lib_def example_json_def)
  have d: "?m ''device_id'' = Some (AnyString ''sensor-1'')" by simp
  have b: "built example_lib example_clock ?m ''sensor-1'' = example_record"
    by (simp add: built_def timestamp_of_def getFloat64Value_def example_record_def
        example_lib_def example_time_def)
  have dbc: "db example_client = ready_store"
    by (simp add: example_client_def NewClient_def)
  have t: "TableName (Timescale (TimescaleDB.config ready_store)) = ''sensor_data''"
    by (simp add: ready_store_def GetDefaultConfig_def)
  have f: "faults (conn ready_store) = []"
    by (simp add: ready_store_def connected_def)
  have rel: "relations (server (conn ready_store))
               (TableName (Timescale (TimescaleDB.config ready_store))) = Some ?rel"
    by (simp add: t) (simp add: ready_store_def connected_def ready_database_def)
  have cols: "columns ?rel = sensor_columns" by (simp add: fresh_relation_def)
  from processMessage_stores[OF j d, of example_clock example_client] obtain lg where
    pm: "processMessage example_lib example_clock example_client ?p =
       (lg, example_client\<lparr>db := snd (snd (InsertSensorData (db example_client)
          (built example_lib example_clock ?m ''sensor-1'')))\<rparr>)" ..
  show ?thesis
    unfolding handler_processMessage pm b dbc InsertSensorData_healthy[OF f rel cols] t
    by (simp add: fresh_relation_def insert_of_def example_record_def)
qed

subsection \<open>The float scanner and the stop channel\<close>

text \<open>
  C9. The numeric-string parser reads a numeric prefix and ignores what follows: for the
  string \<open>24.5\<close> followed by any character that cannot continue the number (such as
  the \<open>a\<close> of \<open>24.5abc\<close>) and by anything after it, \<open>getFloat64Value\<close> returns exactly what
  \<open>strconv.ParseFloat\<close> makes of \<open>24.5\<close>, with success, instead of the default.
\<close>

theorem parseFloat_reads_prefix:
  assumes "ch \<notin> set (decimalDigits @ ''_'' @ exponent)"
  shows "getFloat64Value lib [k \<mapsto> AnyString (''24.5'' @ ch # rest)] k =
           (case strconv_ParseFloat lib ''24.5'' of
              Inr v \<Rightarrow> (v, True)
            | Inl err \<Rightarrow> (0, False))"
proof -
  have tok: "floatToken (''24.5'' @ ch # rest) = (''24.5'', ch # rest)"
    using assms by (simp add: floatToken_def accept_def scan_consts)
  have sk: "SkipSpace (''24.5'' @ ch # rest) = Inr (''24.5'' @ ch # rest)"
    using SkipSpace_start[of "CHR ''2''" "''4.5'' @ ch # rest"] by simp
  have "Sscanf_f lib (''24.5'' @ ch # rest) = strconv_ParseFloat lib ''24.5''"
    by (simp add: Sscanf_f_def sk tok convertFloat_def del: append.simps)
  then show ?thesis
    by (simp add: getFloat64Value_def parseFloat_def split: sum.splits)
qed

theorem parseFloat_reads_prefix_witness:
  "CHR ''a'' \<notin> set (decimalDigits @ ''_'' @ exponent) \<and>
   getFloat64Value example_lib [''temperature'' \<mapsto> AnyString ''24.5abc''] ''temperature'' = (49 / 2, True)"
proof -
  have h: "CHR ''a'' \<notin> set (decimalDigits @ ''_'' @ exponent)"
    by (simp add: scan_consts)
  have "strconv_ParseFloat example_lib ''24.5'' = Inr (49 / 2)"
    by (simp add: example_lib_def example_float_def)
  with parseFloat_reads_prefix[OF h, of example_lib "''temperature''" "''bc''"] h show ?thesis by simp
qed

text \<open>
  C10. \<open>Stop\<close> is not idempotent. On a client made by \<open>NewClient\<close> the first call returns
  and leaves the stop channel closed, where before a receive on it blocked. For every
  client, once a call of \<open>Stop\<close> has returned, a receive in \<open>WaitForStop\<close> returns, and a
  second call of \<open>Stop\<close> panics with the close of a closed channel.
\<close>

theorem Stop_twice_panics:
  assumes "Stop c = Inr c'"
  shows "WaitForStop c' = Some () \<and> Stop c' = Inl Close_of_closed_channel \<and>
         Stop (NewClient cfg d) = Inr ((NewClient cfg d)\<lparr>stopChan := ClosedChan\<rparr>) \<and>
         WaitForStop (NewClient cfg d) = None"
  using assms
  by (auto simp: Stop_def close_def NewClient_def WaitForStop_def split: chan.splits)

theorem Stop_twice_panics_witness:
  "Stop example_client = Inr (example_client\<lparr>stopChan := ClosedChan\<rparr>) \<and>
   WaitForStop (example_client\<lparr>stopChan := ClosedChan\<rparr>) = Some () \<and>
   Stop (example_client\<lparr>stopChan := ClosedChan\<rparr>) = Inl Close_of_closed_channel"
proof -
  have h: "Stop example_client = Inr (example_client\<lparr>stopChan := ClosedChan\<rparr>)"
    by (simp add: example_client_def Stop_def close_def NewClient_def)
  from Stop_twice_panics[OF h, where cfg = GetDefaultConfig and d = ready_store] h
  show ?thesis by simp
qed

end
